theory Spec2Isabelle
  imports Main
begin

section \<open>The panel client of \<open>src/web/scripts/index.js\<close>\<close>

text \<open>
  The file defines one Vue application object, \<open>PanelApp\<close>: its reactive data, its
  methods, and the listeners that \<open>created\<close> registers on the transport (\<open>relay\<close>) and
  on the panel element (\<open>panel\<close>). The modules \<open>relay\<close> and \<open>panel\<close> are imported and
  their code is not part of the file, so what they answer is a parameter of the model
  (the record \<open>env\<close> below); every call the file makes on them is appended to a log, in
  program order, and so is every write to \<open>localStorage\<close>.

  Each method is modelled as a function from the state before to the state after. An
  \<open>async\<close> method is run to its end in one step, with the answers of the awaited calls
  taken from \<open>env\<close>: the model says nothing about handlers that run while a method is
  suspended at an \<open>await\<close>.
\<close>

subsection \<open>JavaScript values and their text\<close>

datatype jsval = Undefined | Null | Num int | Str string

definition digit :: "nat \<Rightarrow> char" where
  "digit n = ''0123456789'' ! n"

fun digits :: "nat \<Rightarrow> string" where
  "digits n = (if n < 10 then [digit n] else digits (n div 10) @ [digit (n mod 10)])"

declare digits.simps [simp del]

text \<open>
  The decimal text of an integer, as a template literal and \<open>setItem\<close> render it (for
  the integers that JavaScript prints in plain digits, which port numbers, device ids and
  button counts are).
\<close>

definition int_text :: "int \<Rightarrow> string" where
  "int_text i = (if i < 0 then CHR ''-'' # digits (nat (- i)) else digits (nat i))"

text \<open>\<open>String(v)\<close>: what \<open>`${v}`\<close> and \<open>localStorage.setItem(k, v)\<close> make of a value.\<close>

fun toString :: "jsval \<Rightarrow> string" where
  "toString Undefined = ''undefined''"
| "toString Null = ''null''"
| "toString (Num i) = int_text i"
| "toString (Str s) = s"

text \<open>
  \<open>localStorage.getItem(k)\<close> is a string, or \<open>null\<close> when there is no such key. It is
  truthy when it is a string that is not empty.
\<close>

fun truthy :: "string option \<Rightarrow> bool" where
  "truthy None = False"
| "truthy (Some v) = (v \<noteq> [])"

fun item :: "string option \<Rightarrow> jsval" where
  "item None = Null"
| "item (Some v) = Str v"

subsection \<open>The collaborators\<close>

datatype connection_state = Disconnected | Connecting | Connected | Reconnecting

text \<open>What \<open>relay.getPanel\<close> rejects with: \<open>err instanceof SyntaxError\<close> or not.\<close>

datatype fetch_error =
  SyntaxError jsval jsval jsval  \<comment> \<open>\<open>message\<close>, \<open>lineNumber\<close>, \<open>columnNumber\<close>\<close>
| FetchError jsval               \<comment> \<open>\<open>message\<close>\<close>

text \<open>What \<open>panel.build\<close> rejects with: \<open>err instanceof AssetError\<close> or not.\<close>

datatype build_error =
  AssetError jsval "jsval list"  \<comment> \<open>\<open>message\<close>, \<open>errors\<close>\<close>
| BuildError jsval               \<comment> \<open>\<open>message\<close>\<close>

text \<open>An entry of \<open>panel.usedDeviceResources\<close>; \<open>axes\<close> may be missing.\<close>

record requested_device =
  buttons :: int
  axes :: "string list option"

text \<open>
  \<open>panel.usedDeviceResources\<close>: an object keyed by device id, here its entries in the
  order \<open>Object.keys\<close> lists them. The keys are the decimal text of the ids, and
  \<open>parseInt\<close> gives the id back.
\<close>

type_synonym device_resources = "(int \<times> requested_device) list"

text \<open>
  The value an \<open>acquireDevice\<close> promise fulfils with. \<open>device_axes\<close> is an object
  keyed by axis name; the code reads \<open>device.axes[axis]\<close> for its truthiness.
\<close>

record device =
  device_id :: int
  isAcquired :: bool
  numButtons :: int
  device_axes :: "(string \<times> bool) list"

text \<open>An element of the array that \<open>Promise.allSettled\<close> resolves to.\<close>

datatype settled = Fulfilled device | Rejected

datatype input_type = Macro | Command | View | OtherInput

record action =
  input_type :: input_type
  isPressed :: bool
  view :: string

record send_result =
  ok :: bool
  send_message :: jsval

type_synonym panel_data = string

record env =
  relay_connect :: "string \<Rightarrow> jsval \<Rightarrow> jsval option"
    \<comment> \<open>\<open>None\<close>: the promise fulfils; \<open>Some m\<close>: it rejects, \<open>err.message\<close> is \<open>m\<close>\<close>
  relay_state_called :: connection_state
    \<comment> \<open>\<open>relay.connectionState\<close> right after \<open>relay.connect\<close> is called\<close>
  relay_state_settled :: connection_state
    \<comment> \<open>\<open>relay.connectionState\<close> once the connect promise has settled\<close>
  relay_getPanels :: "string list option"
    \<comment> \<open>\<open>None\<close>: the promise rejects\<close>
  relay_address :: string
  relay_getPanel :: "string \<Rightarrow> fetch_error + panel_data"
  relay_acquireDevice :: "int \<Rightarrow> settled"
  relay_sendInput :: "action \<Rightarrow> send_result option"
    \<comment> \<open>\<open>None\<close>: the promise rejects\<close>
  panel_build :: "panel_data \<Rightarrow> string option \<Rightarrow> build_error + device_resources"
    \<comment> \<open>\<open>panel.build(panelData)\<close>, run while \<open>this.currentPanel\<close> is the second argument:
        the builder can read it through \<open>window.getAssetPath\<close> (line 207).
        \<open>Inr r\<close>: the build succeeds and \<open>panel.usedDeviceResources\<close> is \<open>r\<close>\<close>

text \<open>
  The calls made on \<open>relay\<close> and \<open>panel\<close>, and the writes to \<open>localStorage\<close>
  (\<open>getItem\<close> changes nothing and is not logged). \<open>Build\<close> records, with the
  descriptor, the value of \<open>this.currentPanel\<close> at the time of the call.
\<close>

datatype call =
  Connect string jsval
| Disconnect
| GetPanels
| GetPanel string
| AcquireDevice int
| SendInput action
| RemoveViews
| Build panel_data "string option"
| SetView string
| SetItem string string
| RemoveItem string

subsection \<open>The state\<close>

text \<open>
  The fields of \<open>data()\<close>, the properties the methods add to them
  (\<open>dialogs.alert.title\<close>, \<open>message\<close>, \<open>connectAfterClose\<close>,
  \<open>dialogs.reconnecting.cancelled\<close>, \<open>showConnectDialog\<close>), \<open>localStorage\<close>, the two
  properties of the panel element that the file reads or writes, and the log of calls.
  \<open>connectAfterClose\<close>, \<open>cancelled\<close> and \<open>showConnectDialog\<close> start undefined and are
  only ever tested for truthiness or set to a boolean: they are booleans here, \<open>False\<close>
  at the start.
\<close>

record app =
  connect_show :: bool
  alert_show :: bool
  alert_title :: "string option"
  alert_message :: "jsval list option"
  alert_connectAfterClose :: bool
  reconnecting_show :: bool
  reconnecting_cancelled :: bool
  address :: string
  port :: jsval
  currentServer :: string
  panels :: "string list"
  currentPanel :: "string option"
  connectionState :: connection_state
  showConnectDialog :: bool
  localStorage :: "string \<Rightarrow> string option"
  panel_display :: string
  usedDeviceResources :: device_resources
  calls :: "call list"

definition data :: app where
  "data = \<lparr> connect_show = False, alert_show = False, alert_title = None,
     alert_message = None, alert_connectAfterClose = False,
     reconnecting_show = False, reconnecting_cancelled = False,
     address = [], port = Num 32155, currentServer = [], panels = [],
     currentPanel = None, connectionState = Disconnected, showConnectDialog = False,
     localStorage = (\<lambda>k. None), panel_display = [], usedDeviceResources = [],
     calls = [] \<rparr>"

definition log :: "call list \<Rightarrow> app \<Rightarrow> app" where
  "log cs s = s\<lparr>calls := calls s @ cs\<rparr>"

definition setItem :: "string \<Rightarrow> string \<Rightarrow> app \<Rightarrow> app" where
  "setItem k v s = log [SetItem k v] (s\<lparr>localStorage := (localStorage s)(k := Some v)\<rparr>)"

definition removeItem :: "string \<Rightarrow> app \<Rightarrow> app" where
  "removeItem k s = log [RemoveItem k] (s\<lparr>localStorage := (localStorage s)(k := None)\<rparr>)"

text \<open>How an \<open>async\<close> method ends: its promise fulfils, or an exception escapes it.\<close>

datatype completion = Returned | Threw

subsection \<open>The methods\<close>

definition showAlertDialog :: "string \<Rightarrow> jsval list \<Rightarrow> app \<Rightarrow> app" where
  "showAlertDialog title message s =
     s\<lparr>alert_title := Some title, alert_message := Some message, alert_show := True\<rparr>"

definition alertDialogClose :: "app \<Rightarrow> app" where
  "alertDialogClose s =
     (let s1 = s\<lparr>alert_show := False\<rparr>;
          s2 = (if alert_connectAfterClose s1 then s1\<lparr>connect_show := True\<rparr> else s1)
      in s2\<lparr>alert_connectAfterClose := False\<rparr>)"

definition closePanel :: "app \<Rightarrow> app" where
  "closePanel s = (removeItem ''lastPanel'' (s\<lparr>currentPanel := None\<rparr>))\<lparr>panel_display := ''none''\<rparr>"

definition reconnectingDialogClose :: "app \<Rightarrow> app" where
  "reconnectingDialogClose s =
     log [Disconnect] (s\<lparr>reconnecting_show := False, reconnecting_cancelled := True\<rparr>)"

text \<open>
  \<open>acquireDevices\<close>: one \<open>relay.acquireDevice\<close> call for each key of
  \<open>panel.usedDeviceResources\<close>, and the array \<open>Promise.allSettled\<close> resolves to.
\<close>

definition acquireDevices :: "env \<Rightarrow> app \<Rightarrow> settled list \<times> app" where
  "acquireDevices e s =
     (let ids = map fst (usedDeviceResources s)
      in (map (relay_acquireDevice e) ids, log (map AcquireDevice ids) s))"

text \<open>
  The members that every plain object inherits from \<open>Object.prototype\<close>. Each is a
  function or an object, so each is truthy.
\<close>

definition object_prototype :: "string list" where
  "object_prototype =
     [''constructor'', ''hasOwnProperty'', ''isPrototypeOf'', ''propertyIsEnumerable'',
      ''toLocaleString'', ''toString'', ''valueOf'', ''__proto__'',
      ''__defineGetter__'', ''__defineSetter__'', ''__lookupGetter__'', ''__lookupSetter__'']"

text \<open>
  \<open>!device.axes[axis]\<close>. The property read finds the object's own entry first, and
  otherwise walks the prototype chain: for a name the object does not hold, the value is
  the inherited member when there is one (truthy), and \<open>undefined\<close> (falsy) when there
  is none.
\<close>

definition axis_off :: "device \<Rightarrow> string \<Rightarrow> bool" where
  "axis_off d a =
     (case map_of (device_axes d) a of
        None \<Rightarrow> a \<notin> set object_prototype
      | Some b \<Rightarrow> \<not> b)"

text \<open>The inner loop of \<open>loadPanel\<close>, over \<open>requestedDevice.axes\<close>.\<close>

fun axes_loop :: "device \<Rightarrow> string list \<Rightarrow> jsval list \<Rightarrow> jsval list" where
  "axes_loop d [] warnings = warnings"
| "axes_loop d (axis # rest) warnings =
     axes_loop d rest
       (if axis_off d axis
        then warnings @ [Str (''Requested axis '' @ axis @ '' not enabled on device ''
                               @ int_text (device_id d))]
        else warnings)"

text \<open>
  The body of the outer loop, for one element \<open>{ value: device }\<close> of the settled
  array. A rejected promise has no \<open>value\<close>, so \<open>device\<close> is undefined and
  \<open>device.isAcquired\<close> throws a TypeError; so does \<open>requestedDevice.buttons\<close> when
  \<open>panel.usedDeviceResources\<close> has no entry for \<open>device.id\<close>.
\<close>

fun loop_body :: "device_resources \<Rightarrow> settled \<Rightarrow> jsval list \<Rightarrow> jsval list option" where
  "loop_body used Rejected warnings = None"
| "loop_body used (Fulfilled d) warnings =
     (if \<not> isAcquired d
      then Some (warnings @ [Str (''Unable to acquire device '' @ int_text (device_id d))])
      else (case map_of used (device_id d) of
              None \<Rightarrow> None
            | Some requestedDevice \<Rightarrow>
                (let w1 = (if buttons requestedDevice > numButtons d
                           then warnings @ [Str (''Device '' @ int_text (device_id d) @ '' has ''
                                  @ int_text (numButtons d) @ '' buttons but this panel uses ''
                                  @ int_text (buttons requestedDevice))]
                           else warnings)
                 in (case axes requestedDevice of
                       None \<Rightarrow> Some w1
                     | Some as \<Rightarrow> Some (axes_loop d as w1)))))"

text \<open>The outer loop; \<open>None\<close> when an iteration throws.\<close>

fun warnings_loop :: "device_resources \<Rightarrow> settled list \<Rightarrow> jsval list \<Rightarrow> jsval list option" where
  "warnings_loop used [] warnings = Some warnings"
| "warnings_loop used (r # rest) warnings =
     (case loop_body used r warnings of
        None \<Rightarrow> None
      | Some warnings' \<Rightarrow> warnings_loop used rest warnings')"

text \<open>The part of \<open>loadPanel\<close> that follows a successful build (\<open>// request devices\<close>).\<close>

definition request_devices :: "env \<Rightarrow> app \<Rightarrow> completion \<times> app" where
  "request_devices e s =
     (let (devices, s1) = acquireDevices e s
      in (case warnings_loop (usedDeviceResources s1) devices [] of
            None \<Rightarrow> (Threw, s1)
          | Some warnings \<Rightarrow>
              (Returned, if length warnings > 0 then showAlertDialog ''Device info'' warnings s1
                         else s1)))"

text \<open>The \<open>catch\<close> block of the fetch.\<close>

fun fetch_message :: "fetch_error \<Rightarrow> jsval list" where
  "fetch_message (SyntaxError m lineNumber columnNumber) =
     [Str (''Error on line '' @ toString lineNumber @ '' at column ''
           @ toString columnNumber @ '':''), m]"
| "fetch_message (FetchError m) = [m]"

text \<open>The \<open>catch\<close> block of the build.\<close>

fun build_errors :: "build_error \<Rightarrow> jsval list" where
  "build_errors (AssetError m errors) = [m] @ errors"
| "build_errors (BuildError m) = [m]"

text \<open>Lines 100 and 101: the two writes between the fetch and the build.\<close>

definition set_current :: "string \<Rightarrow> app \<Rightarrow> app" where
  "set_current panelName s = setItem ''lastPanel'' panelName (s\<lparr>currentPanel := Some panelName\<rparr>)"

text \<open>
  \<open>loadPanel\<close> from line 103 on: the build, its \<open>catch\<close> block, and the request of
  the devices when the build succeeds.
\<close>

definition build_panel :: "env \<Rightarrow> panel_data \<Rightarrow> app \<Rightarrow> completion \<times> app" where
  "build_panel e panelData s =
     (let s1 = log [Build panelData (currentPanel s)] s
      in (case panel_build e panelData (currentPanel s) of
            Inl err \<Rightarrow>
              (Returned, closePanel (showAlertDialog ''Failed to load panel'' (build_errors err) s1))
          | Inr used \<Rightarrow> request_devices e (s1\<lparr>usedDeviceResources := used\<rparr>)))"

definition loadPanel :: "env \<Rightarrow> string \<Rightarrow> app \<Rightarrow> completion \<times> app" where
  "loadPanel e panelName s =
     (let s1 = log [RemoveViews, GetPanel panelName] s
      in (case relay_getPanel e panelName of
            Inl err \<Rightarrow> (Returned, showAlertDialog ''Failed to load panel'' (fetch_message err) s1)
          | Inr panelData \<Rightarrow> build_panel e panelData (set_current panelName s1)))"

definition updatePanels :: "env \<Rightarrow> app \<Rightarrow> completion \<times> app" where
  "updatePanels e s =
     (let s1 = log [GetPanels] s
      in (case relay_getPanels e of
            None \<Rightarrow> (Threw, s1)
          | Some ps \<Rightarrow> (Returned, s1\<lparr>panels := ps\<rparr>)))"

text \<open>
  \<open>connect\<close>. The \<open>finally\<close> block runs on both paths. \<open>this.loadPanel(lastPanel)\<close> is
  not awaited: \<open>connect\<close> returns whatever becomes of it.
\<close>

definition connect :: "env \<Rightarrow> string \<Rightarrow> jsval \<Rightarrow> app \<Rightarrow> completion \<times> app" where
  "connect e addr prt s =
     (let s1 = (log [Connect addr prt] s)\<lparr>connectionState := relay_state_called e\<rparr>
      in (case relay_connect e addr prt of
            Some m \<Rightarrow>
              (let s2 = showAlertDialog ''Connection error''
                          [Str (''Unable to connect to server '' @ addr @ '':'' @ toString prt @ ''.''), m]
                          s1;
                   s3 = s2\<lparr>alert_connectAfterClose := True\<rparr>
               in (Returned, s3\<lparr>connectionState := relay_state_settled e\<rparr>))
          | None \<Rightarrow>
              (let s2 = s1\<lparr>connectionState := relay_state_settled e\<rparr>
               in (case updatePanels e s2 of
                     (Threw, s3) \<Rightarrow> (Threw, s3)
                   | (Returned, s3) \<Rightarrow>
                       (let s4 = s3\<lparr>currentServer := relay_address e\<rparr>;
                            lastPanel = localStorage s4 ''lastPanel''
                        in (case lastPanel of
                              None \<Rightarrow> (Returned, s4)
                            | Some n \<Rightarrow>
                                if truthy lastPanel then (Returned, snd (loadPanel e n s4))
                                else (Returned, s4)))))))"

definition submit :: "env \<Rightarrow> app \<Rightarrow> completion \<times> app" where
  "submit e s =
     (let s1 = setItem ''address'' (address s) s;
          s2 = setItem ''port'' (toString (port s1)) s1
      in (case connect e (address s2) (port s2) s2 of
            (Threw, s3) \<Rightarrow> (Threw, s3)
          | (Returned, s3) \<Rightarrow> (Returned, s3\<lparr>connect_show := False\<rparr>)))"

definition sendInput :: "env \<Rightarrow> action \<Rightarrow> app \<Rightarrow> completion \<times> app" where
  "sendInput e input s =
     (let s1 = log [SendInput input] s
      in (case relay_sendInput e input of
            None \<Rightarrow> (Threw, s1)
          | Some res \<Rightarrow>
              (Returned,
               if \<not> ok res
               then showAlertDialog ''Input error'' [Str ''Error sending input.'', send_message res] s1
               else s1)))"

text \<open>
  \<open>onButtonChange\<close>: the \<open>switch\<close> on \<open>action.type\<close>, with the three cases of the
  source and the fall-through past the \<open>switch\<close> for any other type.
\<close>

definition onButtonChange :: "env \<Rightarrow> action \<Rightarrow> app \<Rightarrow> app" where
  "onButtonChange e a s =
     (case input_type a of
        Macro \<Rightarrow> if isPressed a then s else snd (sendInput e a s)
      | Command \<Rightarrow> if isPressed a then s else snd (sendInput e a s)
      | View \<Rightarrow> if \<not> isPressed a then log [SetView (view a)] s else s
      | OtherInput \<Rightarrow> snd (sendInput e a s))"

definition onSliderChange :: "env \<Rightarrow> action \<Rightarrow> app \<Rightarrow> app" where
  "onSliderChange e a s = snd (sendInput e a s)"

subsection \<open>\<open>created\<close> and the listeners it registers\<close>

text \<open>
  The first statement of \<open>created\<close>. \<open>this.connect\<close> is not awaited. The \<open>else\<close> branch
  sets \<open>this.showConnectDialog\<close>, which is not \<open>dialogs.connect.show\<close>.
\<close>

definition created :: "env \<Rightarrow> app \<Rightarrow> app" where
  "created e s =
     (if truthy (localStorage s ''address'')
      then (case localStorage s ''address'' of
              None \<Rightarrow> s
            | Some a \<Rightarrow>
                (let s1 = s\<lparr>address := a\<rparr>;
                     s2 = s1\<lparr>port := item (localStorage s1 ''port'')\<rparr>
                 in snd (connect e (address s2) (port s2) s2)))
      else s\<lparr>showConnectDialog := True\<rparr>)"

text \<open>
  The listeners on \<open>relay\<close>. Each reads \<open>relay.connectionState\<close>, here the argument
  \<open>rs\<close>; the \<open>close\<close> listener also reads \<open>e.detail?.message\<close>, here \<open>m\<close>.
\<close>

definition on_reconnecting :: "connection_state \<Rightarrow> app \<Rightarrow> app" where
  "on_reconnecting rs s =
     s\<lparr>connectionState := rs, reconnecting_show := True, reconnecting_cancelled := False\<rparr>"

definition on_reconnected :: "env \<Rightarrow> connection_state \<Rightarrow> app \<Rightarrow> app" where
  "on_reconnected e rs s =
     snd (acquireDevices e (s\<lparr>connectionState := rs, reconnecting_show := False\<rparr>))"

definition on_close :: "connection_state \<Rightarrow> jsval \<Rightarrow> app \<Rightarrow> app" where
  "on_close rs m s =
     (let s1 = (closePanel (s\<lparr>connectionState := rs\<rparr>))\<lparr>reconnecting_show := False\<rparr>
      in if \<not> reconnecting_cancelled s1
         then (showAlertDialog ''Connection error'' [Str ''Server connection lost.'', m]
                 (s1\<lparr>reconnecting_cancelled := False\<rparr>))\<lparr>alert_connectAfterClose := True\<rparr>
         else s1)"

text \<open>The \<open>keydown\<close> listener on \<open>window\<close>, on \<open>e.code\<close>.\<close>

definition on_keydown :: "string \<Rightarrow> app \<Rightarrow> app" where
  "on_keydown code s = (if code = ''Escape'' \<or> code = ''Backspace'' then closePanel s else s)"

text \<open>
  What can happen to the application once it is created: a transport event, or the user
  acting on a dialog, on the panel list, on a control of the panel or on the keyboard.
\<close>

datatype event =
  RelayReconnecting connection_state
| RelayReconnected connection_state
| RelayClose connection_state jsval
| CancelReconnecting
| DismissAlert
| SubmitConnect
| SelectPanel string
| ButtonChange action
| SliderChange action
| KeyDown string

fun handle :: "env \<Rightarrow> event \<Rightarrow> app \<Rightarrow> app" where
  "handle e (RelayReconnecting rs) s = on_reconnecting rs s"
| "handle e (RelayReconnected rs) s = on_reconnected e rs s"
| "handle e (RelayClose rs m) s = on_close rs m s"
| "handle e CancelReconnecting s = reconnectingDialogClose s"
| "handle e DismissAlert s = alertDialogClose s"
| "handle e SubmitConnect s = snd (submit e s)"
| "handle e (SelectPanel n) s = snd (loadPanel e n s)"
| "handle e (ButtonChange a) s = onButtonChange e a s"
| "handle e (SliderChange a) s = onSliderChange e a s"
| "handle e (KeyDown code) s = on_keydown code s"

fun run :: "env \<Rightarrow> event list \<Rightarrow> app \<Rightarrow> app" where
  "run e [] s = s"
| "run e (ev # evs) s = run e evs (handle e ev s)"

subsection \<open>The next start of the page\<close>

text \<open>
  When the page is loaded again, \<open>data()\<close> is fresh and \<open>localStorage\<close> holds what it
  held; \<open>created\<close> runs on that.
\<close>

definition next_startup :: "env \<Rightarrow> app \<Rightarrow> app" where
  "next_startup e s = created e (data\<lparr>localStorage := localStorage s\<rparr>)"

subsection \<open>Concrete collaborators and states\<close>

text \<open>A transport and a panel builder for which every call succeeds.\<close>

definition env_ok :: env where
  "env_ok = \<lparr> relay_connect = (\<lambda>a p. None),
     relay_state_called = Connecting, relay_state_settled = Connected,
     relay_getPanels = Some [''deck1''], relay_address = ''host'',
     relay_getPanel = (\<lambda>n. Inr ''layout''),
     relay_acquireDevice = (\<lambda>i. Fulfilled \<lparr>device_id = i, isAcquired = True,
                                  numButtons = 8, device_axes = [(''x'', True)]\<rparr>),
     relay_sendInput = (\<lambda>a. Some \<lparr>ok = True, send_message = Undefined\<rparr>),
     panel_build = (\<lambda>d cp. Inr [(3, \<lparr>buttons = 4, axes = Some [''x'']\<rparr>)]) \<rparr>"

text \<open>The connect promise rejects.\<close>

definition env_refused :: env where
  "env_refused = env_ok\<lparr>relay_connect := (\<lambda>a p. Some (Str ''refused'')),
                        relay_state_settled := Disconnected\<rparr>"

text \<open>\<open>getPanel\<close> rejects with a SyntaxError that carries line 5 and column 12.\<close>

definition env_parse_error :: env where
  "env_parse_error =
     env_ok\<lparr>relay_getPanel := (\<lambda>n. Inl (SyntaxError (Str ''unexpected token'') (Num 5) (Num 12)))\<rparr>"

text \<open>\<open>getPanel\<close> rejects with another error.\<close>

definition env_fetch_error :: env where
  "env_fetch_error = env_ok\<lparr>relay_getPanel := (\<lambda>n. Inl (FetchError (Str ''timeout'')))\<rparr>"

text \<open>The build rejects with an AssetError.\<close>

definition env_bad_asset :: env where
  "env_bad_asset =
     env_ok\<lparr>panel_build := (\<lambda>d cp. Inl (AssetError (Str ''bad asset'')
                                          [Str ''missing icon.png'', Str ''missing font.ttf'']))\<rparr>"

text \<open>
  A builder that resolves its assets through \<open>window.getAssetPath\<close>: the build
  succeeds only while \<open>this.currentPanel\<close> is \<open>deck2\<close>.
\<close>

definition env_assets :: env where
  "env_assets =
     env_ok\<lparr>panel_build :=
       (\<lambda>d cp. if cp = Some ''deck2'' then Inr []
                else Inl (BuildError (Str ''asset not found'')))\<rparr>"

text \<open>Device 3 is acquired with two buttons and no axis.\<close>

definition device3 :: device where
  "device3 = \<lparr>device_id = 3, isAcquired = True, numButtons = 2, device_axes = []\<rparr>"

definition env_small_device :: env where
  "env_small_device = env_ok\<lparr>relay_acquireDevice := (\<lambda>i. Fulfilled device3)\<rparr>"

text \<open>No device is acquired: each promise fulfils with \<open>isAcquired\<close> false.\<close>

definition env_unacquired :: env where
  "env_unacquired =
     env_ok\<lparr>relay_acquireDevice := (\<lambda>i. Fulfilled \<lparr>device_id = i, isAcquired = False,
                                           numButtons = 0, device_axes = []\<rparr>)\<rparr>"

text \<open>Device 1 is not acquired; every other device is, with eight buttons and the axis \<open>x\<close>.\<close>

definition env_mixed :: env where
  "env_mixed =
     env_ok\<lparr>relay_acquireDevice :=
       (\<lambda>i. if i = 1
             then Fulfilled \<lparr>device_id = 1, isAcquired = False, numButtons = 0, device_axes = []\<rparr>
             else relay_acquireDevice env_ok i)\<rparr>"

text \<open>The promise for device 2 rejects; device 1 is not acquired.\<close>

definition env_rejecting :: env where
  "env_rejecting =
     env_unacquired\<lparr>relay_acquireDevice :=
       (\<lambda>i. if i = 2 then Rejected else relay_acquireDevice env_unacquired i)\<rparr>"

text \<open>A panel that uses devices 1 and 2.\<close>

definition two_devices :: device_resources where
  "two_devices = [(1, \<lparr>buttons = 1, axes = None\<rparr>), (2, \<lparr>buttons = 12, axes = Some [''x'', ''y'']\<rparr>)]"

text \<open>Connected, with the panel \<open>deck1\<close> built and shown; it uses device 3.\<close>

definition active_panel :: app where
  "active_panel =
     data\<lparr>currentPanel := Some ''deck1'', connectionState := Connected,
          localStorage := (\<lambda>k. if k = ''lastPanel'' then Some ''deck1'' else None),
          usedDeviceResources := [(3, \<lparr>buttons = 4, axes = Some [''x'']\<rparr>)]\<rparr>"

definition press :: "input_type \<Rightarrow> action" where
  "press ty = \<lparr>input_type = ty, isPressed = True, view = ''main''\<rparr>"

definition release :: "input_type \<Rightarrow> action" where
  "release ty = \<lparr>input_type = ty, isPressed = False, view = ''main''\<rparr>"

section \<open>Properties\<close>

subsection \<open>Auxiliary facts\<close>

text \<open>The text of the numbers that the examples use.\<close>

lemma int_text_1: "int_text 1 = ''1''"
  by (simp add: int_text_def digits.simps digit_def)

lemma int_text_8: "int_text 8 = ''8''"
  by (simp add: int_text_def digits.simps digit_def)

lemma int_text_8080: "int_text 8080 = ''8080''"
  by (simp add: int_text_def digits.simps digit_def)

lemma int_text_2: "int_text 2 = ''2''"
  by (simp add: int_text_def digits.simps digit_def)

lemma int_text_3: "int_text 3 = ''3''"
  by (simp add: int_text_def digits.simps digit_def)

lemma int_text_4: "int_text 4 = ''4''"
  by (simp add: int_text_def digits.simps digit_def)

lemma int_text_5: "int_text 5 = ''5''"
  by (simp add: int_text_def digits.simps digit_def)

lemma int_text_12: "int_text 12 = ''12''"
  by (simp add: int_text_def digits.simps digit_def)

text \<open>\<open>loadPanel\<close>, one path at a time.\<close>

lemma loadPanel_fetch_failed:
  "relay_getPanel e n = Inl err \<Longrightarrow>
   loadPanel e n s =
     (Returned, showAlertDialog ''Failed to load panel'' (fetch_message err)
                  (log [RemoveViews, GetPanel n] s))"
  by (simp add: loadPanel_def)

lemma loadPanel_fetched:
  "relay_getPanel e n = Inr d \<Longrightarrow>
   loadPanel e n s = build_panel e d (set_current n (log [RemoveViews, GetPanel n] s))"
  by (simp add: loadPanel_def)

lemma build_panel_failed:
  "panel_build e d (currentPanel s) = Inl err \<Longrightarrow>
   build_panel e d s =
     (Returned, closePanel (showAlertDialog ''Failed to load panel'' (build_errors err)
                              (log [Build d (currentPanel s)] s)))"
  by (simp add: build_panel_def)

lemma build_panel_built:
  "panel_build e d (currentPanel s) = Inr used \<Longrightarrow>
   build_panel e d s
     = request_devices e ((log [Build d (currentPanel s)] s)\<lparr>usedDeviceResources := used\<rparr>)"
  by (simp add: build_panel_def)

lemma set_current_state:
  "currentPanel (set_current n s) = Some n
   \<and> localStorage (set_current n s) ''lastPanel'' = Some n
   \<and> calls (set_current n s) = calls s @ [SetItem ''lastPanel'' n]"
  by (simp add: set_current_def setItem_def log_def)

text \<open>The two loops only append to \<open>warnings\<close>.\<close>

lemma axes_loop_append:
  "axes_loop d as ws =
     ws @ map (\<lambda>a. Str (''Requested axis '' @ a @ '' not enabled on device '' @ int_text (device_id d)))
            (filter (axis_off d) as)"
  by (induction as arbitrary: ws) simp_all

lemma axes_loop_from_empty: "axes_loop d as ws = ws @ axes_loop d as []"
  by (simp add: axes_loop_append [of d as ws] axes_loop_append [of d as "[]"])

lemma loop_body_append:
  "loop_body used r ws = map_option (\<lambda>w. ws @ w) (loop_body used r [])"
proof (cases r)
  case (Fulfilled d)
  then show ?thesis
    using axes_loop_from_empty [of d _ "ws @ _"] axes_loop_from_empty [of d _ "[_]"]
      axes_loop_from_empty [of d _ ws]
    by (simp add: Let_def split: option.splits)
next
  case Rejected
  then show ?thesis by simp
qed

lemma warnings_loop_rejected:
  "Rejected \<in> set rs \<Longrightarrow> warnings_loop used rs ws = None"
  by (induction rs arbitrary: ws) (auto split: option.splits)

lemma warnings_loop_concat:
  "\<forall>r \<in> set rs. loop_body used r [] \<noteq> None \<Longrightarrow>
   warnings_loop used rs ws = Some (ws @ concat (map (\<lambda>r. the (loop_body used r [])) rs))"
proof (induction rs arbitrary: ws)
  case Nil
  then show ?case by simp
next
  case (Cons r rs)
  from Cons.prems obtain w where w: "loop_body used r [] = Some w" by auto
  then have "loop_body used r ws = Some (ws @ w)"
    using loop_body_append [of used r ws] by simp
  with Cons w show ?case by simp
qed

lemma warnings_loop_total:
  "Rejected \<notin> set rs \<Longrightarrow>
   \<forall>d. Fulfilled d \<in> set rs \<and> isAcquired d \<longrightarrow> map_of used (device_id d) \<noteq> None \<Longrightarrow>
   warnings_loop used rs ws \<noteq> None"
proof (induction rs arbitrary: ws)
  case Nil
  then show ?case by simp
next
  case (Cons r rs)
  then obtain d where r: "r = Fulfilled d" by (cases r) auto
  from Cons.prems(2) r have "isAcquired d \<Longrightarrow> map_of used (device_id d) \<noteq> None" by simp
  then have "loop_body used r ws \<noteq> None"
    using r by (cases "isAcquired d") (auto simp: Let_def split: option.splits)
  then obtain w where "loop_body used r ws = Some w" by auto
  moreover have "warnings_loop used rs w \<noteq> None"
    using Cons.IH [of w] Cons.prems by simp
  ultimately show ?case by simp
qed

lemma mixed_results:
  "fst (acquireDevices env_mixed (data\<lparr>usedDeviceResources := two_devices\<rparr>))
     = [Fulfilled \<lparr>device_id = 1, isAcquired = False, numButtons = 0, device_axes = []\<rparr>,
        Fulfilled \<lparr>device_id = 2, isAcquired = True, numButtons = 8, device_axes = [(''x'', True)]\<rparr>]"
  by (simp add: acquireDevices_def env_mixed_def env_ok_def two_devices_def data_def)

lemma mixed_warnings:
  "warnings_loop two_devices
     [Fulfilled \<lparr>device_id = 1, isAcquired = False, numButtons = 0, device_axes = []\<rparr>,
      Fulfilled \<lparr>device_id = 2, isAcquired = True, numButtons = 8, device_axes = [(''x'', True)]\<rparr>] []
   = Some [Str ''Unable to acquire device 1'',
           Str ''Device 2 has 8 buttons but this panel uses 12'',
           Str ''Requested axis y not enabled on device 2'']"
  by (simp add: two_devices_def axis_off_def object_prototype_def
        int_text_1 int_text_2 int_text_8 int_text_12)

lemma rejecting_results:
  "fst (acquireDevices env_rejecting (data\<lparr>usedDeviceResources := two_devices\<rparr>))
     = [Fulfilled \<lparr>device_id = 1, isAcquired = False, numButtons = 0, device_axes = []\<rparr>, Rejected]"
  by (simp add: acquireDevices_def env_rejecting_def env_unacquired_def env_ok_def
        two_devices_def data_def)

text \<open>What the methods leave alone, and that the log of calls only grows.\<close>

lemma request_devices_frame:
  "address (snd (request_devices e s)) = address s
   \<and> port (snd (request_devices e s)) = port s
   \<and> localStorage (snd (request_devices e s)) = localStorage s
   \<and> alert_connectAfterClose (snd (request_devices e s)) = alert_connectAfterClose s
   \<and> connect_show (snd (request_devices e s)) = connect_show s
   \<and> (\<exists>cs. calls (snd (request_devices e s)) = calls s @ cs)"
  by (simp add: request_devices_def acquireDevices_def log_def showAlertDialog_def
        split: option.splits)

lemma build_panel_frame:
  "address (snd (build_panel e d s)) = address s
   \<and> port (snd (build_panel e d s)) = port s
   \<and> (k \<noteq> ''lastPanel'' \<longrightarrow> localStorage (snd (build_panel e d s)) k = localStorage s k)
   \<and> alert_connectAfterClose (snd (build_panel e d s)) = alert_connectAfterClose s
   \<and> connect_show (snd (build_panel e d s)) = connect_show s
   \<and> (\<exists>cs. calls (snd (build_panel e d s)) = calls s @ Build d (currentPanel s) # cs)"
proof (cases "panel_build e d (currentPanel s)")
  case (Inl err)
  then show ?thesis
    by (simp add: build_panel_def closePanel_def removeItem_def showAlertDialog_def log_def)
next
  case (Inr used)
  let ?t = "(log [Build d (currentPanel s)] s)\<lparr>usedDeviceResources := used\<rparr>"
  from request_devices_frame [of e ?t]
  obtain cs where "calls (snd (request_devices e ?t)) = calls ?t @ cs" by blast
  then have "calls (snd (request_devices e ?t)) = calls s @ Build d (currentPanel s) # cs"
    by (simp add: log_def)
  then have "\<exists>cs. calls (snd (request_devices e ?t)) = calls s @ Build d (currentPanel s) # cs"
    by blast
  with Inr request_devices_frame [of e ?t] show ?thesis
    by (simp add: build_panel_def log_def)
qed

lemma loadPanel_frame:
  "address (snd (loadPanel e n s)) = address s
   \<and> port (snd (loadPanel e n s)) = port s
   \<and> (k \<noteq> ''lastPanel'' \<longrightarrow> localStorage (snd (loadPanel e n s)) k = localStorage s k)
   \<and> alert_connectAfterClose (snd (loadPanel e n s)) = alert_connectAfterClose s
   \<and> connect_show (snd (loadPanel e n s)) = connect_show s
   \<and> (\<exists>cs. calls (snd (loadPanel e n s)) = calls s @ cs)"
proof (cases "relay_getPanel e n")
  case (Inl err)
  then show ?thesis
    by (simp add: loadPanel_def showAlertDialog_def log_def)
next
  case (Inr d)
  let ?t = "set_current n (log [RemoveViews, GetPanel n] s)"
  from build_panel_frame [of e d ?t k]
  obtain cs where "calls (snd (build_panel e d ?t)) = calls ?t @ Build d (currentPanel ?t) # cs"
    by blast
  then have "calls (snd (build_panel e d ?t))
               = calls s @ (RemoveViews # GetPanel n # SetItem ''lastPanel'' n
                            # Build d (currentPanel ?t) # cs)"
    by (simp add: log_def set_current_def setItem_def)
  then have "\<exists>cs. calls (snd (build_panel e d ?t)) = calls s @ cs" by blast
  with Inr build_panel_frame [of e d ?t k] show ?thesis
    by (simp add: loadPanel_def log_def set_current_def setItem_def)
qed

lemma connect_frame:
  "address (snd (connect e a p s)) = address s
   \<and> port (snd (connect e a p s)) = port s
   \<and> (k \<noteq> ''lastPanel'' \<longrightarrow> localStorage (snd (connect e a p s)) k = localStorage s k)
   \<and> (\<exists>cs. calls (snd (connect e a p s)) = calls s @ Connect a p # cs)"
proof (cases "relay_connect e a p")
  case (Some m)
  then show ?thesis
    by (simp add: connect_def showAlertDialog_def log_def)
next
  case None
  show ?thesis
  proof (cases "relay_getPanels e")
    case None
    with \<open>relay_connect e a p = None\<close> show ?thesis
      by (simp add: connect_def updatePanels_def log_def)
  next
    case (Some ps)
    let ?t = "(log [GetPanels] ((log [Connect a p] s)\<lparr>connectionState := relay_state_called e\<rparr>
                \<lparr>connectionState := relay_state_settled e\<rparr>))\<lparr>panels := ps\<rparr>
                \<lparr>currentServer := relay_address e\<rparr>"
    have c: "connect e a p s =
               (case localStorage s ''lastPanel'' of
                  None \<Rightarrow> (Returned, ?t)
                | Some n \<Rightarrow> if n \<noteq> [] then (Returned, snd (loadPanel e n ?t)) else (Returned, ?t))"
      using Some \<open>relay_connect e a p = None\<close>
      by (simp add: connect_def updatePanels_def log_def Let_def split: option.splits)
    have t: "address ?t = address s \<and> port ?t = port s \<and> localStorage ?t = localStorage s
             \<and> calls ?t = calls s @ [Connect a p, GetPanels]"
      by (simp add: log_def)
    show ?thesis
    proof (cases "localStorage s ''lastPanel''")
      case None
      with c t show ?thesis by simp
    next
      case (Some n)
      from loadPanel_frame [of e n ?t k]
      obtain cs where "calls (snd (loadPanel e n ?t)) = calls ?t @ cs" by blast
      with t have "calls (snd (loadPanel e n ?t)) = calls s @ Connect a p # (GetPanels # cs)"
        by simp
      then have "\<exists>cs. calls (snd (loadPanel e n ?t)) = calls s @ Connect a p # cs" by blast
      with c t Some loadPanel_frame [of e n ?t k] show ?thesis by simp
    qed
  qed
qed

lemma submit_storage:
  "localStorage (snd (submit e s)) ''address'' = Some (address s)
   \<and> localStorage (snd (submit e s)) ''port'' = Some (toString (port s))"
proof -
  let ?t = "setItem ''port'' (toString (port s)) (setItem ''address'' (address s) s)"
  have t: "address ?t = address s \<and> port ?t = port s
           \<and> localStorage ?t ''address'' = Some (address s)
           \<and> localStorage ?t ''port'' = Some (toString (port s))"
    by (simp add: setItem_def log_def)
  have "snd (submit e s) = snd (connect e (address s) (port s) ?t)
        \<or> snd (submit e s) = (snd (connect e (address s) (port s) ?t))\<lparr>connect_show := False\<rparr>"
    by (cases "connect e (address s) (port s) ?t")
       (auto simp: submit_def setItem_def log_def Let_def split: completion.splits)
  then show ?thesis
    using connect_frame [of e "address s" "port s" ?t "''address''"]
          connect_frame [of e "address s" "port s" ?t "''port''"] t
    by auto
qed

lemma sendInput_storage: "localStorage (snd (sendInput e a s)) = localStorage s"
  by (simp add: sendInput_def log_def showAlertDialog_def Let_def split: option.splits)

lemma handle_storage:
  assumes "ev \<noteq> SubmitConnect" and "k \<noteq> ''lastPanel''"
  shows "localStorage (handle e ev s) k = localStorage s k"
proof (cases ev)
  case (SelectPanel n)
  then show ?thesis using loadPanel_frame [of e n s k] assms by simp
next
  case (ButtonChange a)
  then show ?thesis
    by (cases "input_type a") (simp_all add: onButtonChange_def sendInput_storage log_def)
next
  case (SliderChange a)
  then show ?thesis by (simp add: onSliderChange_def sendInput_storage)
next
  case (RelayClose rs m)
  then show ?thesis using assms
    by (simp add: on_close_def closePanel_def removeItem_def showAlertDialog_def log_def Let_def)
next
  case (KeyDown c)
  then show ?thesis using assms
    by (simp add: on_keydown_def closePanel_def removeItem_def log_def)
qed (use assms in \<open>simp_all add: on_reconnecting_def on_reconnected_def acquireDevices_def log_def
      reconnectingDialogClose_def alertDialogClose_def Let_def\<close>)

lemma run_storage:
  "SubmitConnect \<notin> set evs \<Longrightarrow> k \<noteq> ''lastPanel'' \<Longrightarrow>
   localStorage (run e evs s) k = localStorage s k"
proof (induction evs arbitrary: s)
  case Nil
  then show ?case by simp
next
  case (Cons ev evs)
  then have "localStorage (run e evs (handle e ev s)) k = localStorage (handle e ev s) k"
    by simp
  also have "\<dots> = localStorage s k"
    using Cons.prems handle_storage [of ev k e s] by auto
  finally show ?case by simp
qed

lemma sendInput_calls: "calls (snd (sendInput e a s)) = calls s @ [SendInput a]"
  by (simp add: sendInput_def log_def showAlertDialog_def Let_def split: option.splits)

subsection \<open>Reconnection\<close>

text \<open>
  Claim C1. After \<open>reconnecting\<close>, the user's cancel and \<open>close\<close>, no alert is shown by
  these three events; but \<open>dialogs.reconnecting.cancelled\<close> is still true afterwards,
  because the \<open>close\<close> listener assigns \<open>false\<close> to it only inside the branch taken
  when it is already falsy. A second \<open>close\<close>, with no cancel in between, therefore
  shows no alert either, whereas a \<open>close\<close> on the fresh state does show one.
\<close>

theorem cancelled_flag_not_reset:
  "reconnecting_cancelled
     (run e [RelayReconnecting r1, CancelReconnecting, RelayClose r2 m] s)
   \<and> alert_show (run e [RelayReconnecting r1, CancelReconnecting, RelayClose r2 m] s)
       = alert_show s
   \<and> alert_show
       (run e [RelayReconnecting r1, CancelReconnecting, RelayClose r2 m, RelayClose r3 m'] s)
       = alert_show s
   \<and> \<not> alert_show
       (run env_ok [RelayReconnecting Reconnecting, CancelReconnecting,
                    RelayClose Disconnected Undefined, RelayClose Disconnected Undefined] data)
   \<and> alert_show (run env_ok [RelayClose Disconnected Undefined] data)"
  by (simp add: on_reconnecting_def reconnectingDialogClose_def on_close_def closePanel_def
        removeItem_def log_def showAlertDialog_def data_def)

text \<open>
  Claim C3. The \<open>reconnected\<close> listener sets the connection state, hides the
  reconnecting dialog and calls \<open>acquireDevices\<close>: one \<open>relay.acquireDevice\<close> call for
  each device of \<open>panel.usedDeviceResources\<close>, whether a panel is current or not. It
  does not read the results: nothing is compared and the alert dialog is left as it was.
\<close>

theorem reconnected_reacquires_only:
  "on_reconnected e rs s
     = log (map AcquireDevice (map fst (usedDeviceResources s)))
         (s\<lparr>connectionState := rs, reconnecting_show := False\<rparr>)
   \<and> calls (on_reconnected e rs s) = calls s @ map AcquireDevice (map fst (usedDeviceResources s))
   \<and> alert_show (on_reconnected e rs s) = alert_show s
   \<and> alert_title (on_reconnected e rs s) = alert_title s
   \<and> alert_message (on_reconnected e rs s) = alert_message s"
  by (simp add: on_reconnected_def acquireDevices_def log_def)

text \<open>
  With device 3 used by the panel and not acquired, the request of the devices that
  follows a build shows the alert ``Device info''; the \<open>reconnected\<close> listener, in the
  same state and with the same transport, shows none.
\<close>

theorem reconnected_no_notification:
  "alert_show (snd (request_devices env_unacquired active_panel))
   \<and> alert_title (snd (request_devices env_unacquired active_panel)) = Some ''Device info''
   \<and> alert_message (snd (request_devices env_unacquired active_panel))
       = Some [Str ''Unable to acquire device 3'']
   \<and> \<not> alert_show (on_reconnected env_unacquired Connected active_panel)
   \<and> alert_title (on_reconnected env_unacquired Connected active_panel) = None"
  by (simp add: request_devices_def on_reconnected_def acquireDevices_def log_def
        env_unacquired_def env_ok_def active_panel_def data_def showAlertDialog_def int_text_3)

subsection \<open>What dismissing an alert reopens\<close>

text \<open>
  Claim C2. \<open>loadPanel\<close> never writes \<open>dialogs.alert.connectAfterClose\<close>: after a failed
  fetch or a failed build the flag is what it was before the call, so dismissing the
  alert shows the connect dialog only if it was shown already or the flag was already
  set. A failed build also closes the panel. A failed \<open>connect\<close> does set the flag, and
  dismissing its alert shows the connect dialog.
\<close>

theorem load_failure_chaining:
  "(relay_getPanel e n = Inl ferr \<longrightarrow>
      alert_connectAfterClose (snd (loadPanel e n s)) = alert_connectAfterClose s
      \<and> connect_show (alertDialogClose (snd (loadPanel e n s)))
          = (connect_show s \<or> alert_connectAfterClose s))
   \<and> (relay_getPanel e n = Inr d \<and> panel_build e d (Some n) = Inl berr \<longrightarrow>
      alert_connectAfterClose (snd (loadPanel e n s)) = alert_connectAfterClose s
      \<and> connect_show (alertDialogClose (snd (loadPanel e n s)))
          = (connect_show s \<or> alert_connectAfterClose s)
      \<and> currentPanel (snd (loadPanel e n s)) = None
      \<and> localStorage (snd (loadPanel e n s)) ''lastPanel'' = None
      \<and> panel_display (snd (loadPanel e n s)) = ''none'')
   \<and> (relay_connect e a p = Some m \<longrightarrow>
      alert_connectAfterClose (snd (connect e a p s))
      \<and> connect_show (alertDialogClose (snd (connect e a p s))))"
proof (intro conjI impI)
  have dismiss: "connect_show (alertDialogClose t) = (connect_show t \<or> alert_connectAfterClose t)" for t
    by (simp add: alertDialogClose_def Let_def)
  {
    assume "relay_getPanel e n = Inl ferr"
    then have l: "loadPanel e n s
        = (Returned, showAlertDialog ''Failed to load panel'' (fetch_message ferr)
                       (log [RemoveViews, GetPanel n] s))"
      by (simp add: loadPanel_def)
    show "alert_connectAfterClose (snd (loadPanel e n s)) = alert_connectAfterClose s"
      by (simp add: l showAlertDialog_def log_def)
    show "connect_show (alertDialogClose (snd (loadPanel e n s)))
            = (connect_show s \<or> alert_connectAfterClose s)"
      by (simp add: dismiss) (simp add: l showAlertDialog_def log_def)
  }
  {
    assume "relay_getPanel e n = Inr d \<and> panel_build e d (Some n) = Inl berr"
    then have l: "loadPanel e n s
        = (Returned, closePanel (showAlertDialog ''Failed to load panel'' (build_errors berr)
             (log [Build d (Some n)] (set_current n (log [RemoveViews, GetPanel n] s)))))"
      by (simp add: loadPanel_def build_panel_def set_current_state)
    show "alert_connectAfterClose (snd (loadPanel e n s)) = alert_connectAfterClose s"
      by (simp add: l closePanel_def removeItem_def showAlertDialog_def log_def
            set_current_def setItem_def)
    show "connect_show (alertDialogClose (snd (loadPanel e n s)))
            = (connect_show s \<or> alert_connectAfterClose s)"
      by (simp add: dismiss)
         (simp add: l closePanel_def removeItem_def showAlertDialog_def log_def
            set_current_def setItem_def)
    show "currentPanel (snd (loadPanel e n s)) = None"
      by (simp add: l closePanel_def removeItem_def log_def)
    show "localStorage (snd (loadPanel e n s)) ''lastPanel'' = None"
      by (simp add: l closePanel_def removeItem_def log_def)
    show "panel_display (snd (loadPanel e n s)) = ''none''"
      by (simp add: l closePanel_def removeItem_def log_def)
  }
  {
    assume "relay_connect e a p = Some m"
    then show c: "alert_connectAfterClose (snd (connect e a p s))"
      by (simp add: connect_def Let_def)
    then show "connect_show (alertDialogClose (snd (connect e a p s)))"
      by (simp add: dismiss)
  }
qed

theorem load_failure_chaining_witness:
  "relay_getPanel env_fetch_error ''deck1'' = Inl (FetchError (Str ''timeout''))
   \<and> \<not> alert_connectAfterClose (snd (loadPanel env_fetch_error ''deck1'' data))
   \<and> relay_getPanel env_bad_asset ''deck1'' = Inr ''layout''
   \<and> panel_build env_bad_asset ''layout'' (Some ''deck1'')
       = Inl (AssetError (Str ''bad asset'') [Str ''missing icon.png'', Str ''missing font.ttf''])
   \<and> \<not> alert_connectAfterClose (snd (loadPanel env_bad_asset ''deck1'' data))
   \<and> currentPanel (snd (loadPanel env_bad_asset ''deck1'' data)) = None
   \<and> relay_connect env_refused ''host'' (Num 32155) = Some (Str ''refused'')
   \<and> connect_show (alertDialogClose (snd (connect env_refused ''host'' (Num 32155) data)))"
proof -
  have f: "relay_getPanel env_fetch_error ''deck1'' = Inl (FetchError (Str ''timeout''))"
    by (simp add: env_fetch_error_def)
  have g: "relay_getPanel env_bad_asset ''deck1'' = Inr ''layout''"
    by (simp add: env_bad_asset_def env_ok_def)
  have b: "panel_build env_bad_asset ''layout'' (Some ''deck1'')
       = Inl (AssetError (Str ''bad asset'') [Str ''missing icon.png'', Str ''missing font.ttf''])"
    by (simp add: env_bad_asset_def)
  have c: "relay_connect env_refused ''host'' (Num 32155) = Some (Str ''refused'')"
    by (simp add: env_refused_def)
  have d: "\<not> alert_connectAfterClose data" by (simp add: data_def)
  show ?thesis
    using f g b c d
      load_failure_chaining [of env_fetch_error "''deck1''" "FetchError (Str ''timeout'')" data
        "''layout''" "BuildError Undefined" "''host''" "Num 32155" "Str ''refused''"]
      load_failure_chaining [of env_bad_asset "''deck1''" "FetchError Undefined" data "''layout''"
        "AssetError (Str ''bad asset'') [Str ''missing icon.png'', Str ''missing font.ttf'']"
        "''host''" "Num 32155" "Str ''refused''"]
      load_failure_chaining [of env_refused "''deck1''" "FetchError Undefined" data "''layout''"
        "BuildError Undefined" "''host''" "Num 32155" "Str ''refused''"]
    by simp
qed

text \<open>
  From the fresh state, the alert of a failed fetch or of a failed build is dismissed
  and the connect dialog stays hidden; the alert of a failed connect reopens it.
\<close>

theorem load_failure_no_reopen:
  "\<not> connect_show (alertDialogClose (snd (loadPanel env_fetch_error ''deck1'' data)))
   \<and> \<not> connect_show (alertDialogClose (snd (loadPanel env_parse_error ''deck1'' data)))
   \<and> \<not> connect_show (alertDialogClose (snd (loadPanel env_bad_asset ''deck1'' data)))
   \<and> connect_show (alertDialogClose (snd (connect env_refused ''host'' (Num 32155) data)))"
  by (simp add: alertDialogClose_def loadPanel_def build_panel_def connect_def closePanel_def
        removeItem_def set_current_def setItem_def showAlertDialog_def log_def
        env_fetch_error_def env_parse_error_def env_bad_asset_def env_refused_def env_ok_def
        data_def Let_def)

subsection \<open>A failed fetch\<close>

text \<open>
  Claim C4. When \<open>relay.getPanel\<close> rejects, \<open>loadPanel\<close> returns after showing the alert
  titled ``Failed to load panel''. For a SyntaxError with \<open>lineNumber\<close> 5 and
  \<open>columnNumber\<close> 12 the message is the line ``Error on line 5 at column 12:'' followed
  by the error's own message; for any other error it is the error's message alone. In
  both cases \<open>currentPanel\<close> and all of \<open>localStorage\<close> (so the last panel too) are what
  they were before the call, and the only calls made are \<open>panel.removeViews\<close> and
  \<open>relay.getPanel\<close>: nothing is built and no device is requested.
\<close>

theorem fetch_failure_report:
  assumes "relay_getPanel e n = Inl err"
  shows "fst (loadPanel e n s) = Returned
       \<and> alert_show (snd (loadPanel e n s))
       \<and> alert_title (snd (loadPanel e n s)) = Some ''Failed to load panel''
       \<and> alert_message (snd (loadPanel e n s)) = Some (fetch_message err)
       \<and> fetch_message (SyntaxError m (Num 5) (Num 12)) = [Str ''Error on line 5 at column 12:'', m]
       \<and> fetch_message (FetchError m) = [m]
       \<and> currentPanel (snd (loadPanel e n s)) = currentPanel s
       \<and> localStorage (snd (loadPanel e n s)) = localStorage s
       \<and> usedDeviceResources (snd (loadPanel e n s)) = usedDeviceResources s
       \<and> calls (snd (loadPanel e n s)) = calls s @ [RemoveViews, GetPanel n]"
  by (simp add: loadPanel_fetch_failed [OF assms] showAlertDialog_def log_def
        int_text_5 int_text_12)

theorem fetch_failure_report_witness:
  "relay_getPanel env_parse_error ''deck1''
     = Inl (SyntaxError (Str ''unexpected token'') (Num 5) (Num 12))
   \<and> alert_message (snd (loadPanel env_parse_error ''deck1'' active_panel))
       = Some [Str ''Error on line 5 at column 12:'', Str ''unexpected token'']
   \<and> currentPanel (snd (loadPanel env_parse_error ''deck1'' active_panel)) = Some ''deck1''
   \<and> calls (snd (loadPanel env_parse_error ''deck1'' active_panel))
       = [RemoveViews, GetPanel ''deck1'']"
proof -
  have h: "relay_getPanel env_parse_error ''deck1''
             = Inl (SyntaxError (Str ''unexpected token'') (Num 5) (Num 12))"
    by (simp add: env_parse_error_def)
  show ?thesis
    using h fetch_failure_report [OF h, where s = active_panel and m = "Str ''unexpected token''"]
    by (simp add: active_panel_def data_def)
qed

subsection \<open>A failed build\<close>

text \<open>
  Claim C5. Whenever the fetch succeeds, whatever the build does later: \<open>loadPanel\<close>
  sets \<open>currentPanel\<close> to the panel's name and stores the name as \<open>lastPanel\<close>, and
  only then calls \<open>panel.build\<close>. The log shows the write to \<open>localStorage\<close> before
  the build, and the build runs while \<open>currentPanel\<close> is already the new name (it is
  the builder's second argument and is recorded with the call). When the build rejects,
  the alert holds the error's message followed by the errors of an AssetError, the
  panel ends closed (\<open>currentPanel\<close> is null, \<open>lastPanel\<close> is removed from
  \<open>localStorage\<close> after having been written, the panel element's display is \<open>none\<close>),
  and the earlier value of \<open>currentPanel\<close> is not brought back. For the AssetError
  with message ``bad asset'' and errors ``missing icon.png'', ``missing font.ttf'' the
  alert holds exactly these three lines in this order. With the builder of
  \<open>env_assets\<close>, which succeeds only while \<open>currentPanel\<close> is \<open>deck2\<close>, loading
  \<open>deck2\<close> over \<open>deck1\<close> succeeds: the build sees the new name, not the old one.
\<close>

theorem build_failure_report:
  "(relay_getPanel e n = Inr d \<longrightarrow>
      loadPanel e n s = build_panel e d (set_current n (log [RemoveViews, GetPanel n] s))
      \<and> currentPanel (set_current n (log [RemoveViews, GetPanel n] s)) = Some n
      \<and> localStorage (set_current n (log [RemoveViews, GetPanel n] s)) ''lastPanel'' = Some n
      \<and> calls (set_current n (log [RemoveViews, GetPanel n] s))
          = calls s @ [RemoveViews, GetPanel n, SetItem ''lastPanel'' n]
      \<and> take (length (calls s) + 4) (calls (snd (loadPanel e n s)))
          = calls s @ [RemoveViews, GetPanel n, SetItem ''lastPanel'' n, Build d (Some n)])
   \<and> (relay_getPanel e n = Inr d \<and> panel_build e d (Some n) = Inl err \<longrightarrow>
      fst (loadPanel e n s) = Returned
      \<and> alert_show (snd (loadPanel e n s))
      \<and> alert_title (snd (loadPanel e n s)) = Some ''Failed to load panel''
      \<and> alert_message (snd (loadPanel e n s)) = Some (build_errors err)
      \<and> currentPanel (snd (loadPanel e n s)) = None
      \<and> localStorage (snd (loadPanel e n s)) ''lastPanel'' = None
      \<and> panel_display (snd (loadPanel e n s)) = ''none''
      \<and> calls (snd (loadPanel e n s))
          = calls s @ [RemoveViews, GetPanel n, SetItem ''lastPanel'' n, Build d (Some n),
                       RemoveItem ''lastPanel''])
   \<and> (relay_getPanel e n = Inr d
        \<and> panel_build e d (Some n)
            = Inl (AssetError (Str ''bad asset'')
                     [Str ''missing icon.png'', Str ''missing font.ttf'']) \<longrightarrow>
      alert_message (snd (loadPanel e n s))
        = Some [Str ''bad asset'', Str ''missing icon.png'', Str ''missing font.ttf''])
   \<and> build_errors (BuildError m) = [m]
   \<and> panel_build env_assets ''layout'' (currentPanel active_panel)
       = Inl (BuildError (Str ''asset not found''))
   \<and> fst (loadPanel env_assets ''deck2'' active_panel) = Returned
   \<and> \<not> alert_show (snd (loadPanel env_assets ''deck2'' active_panel))
   \<and> currentPanel (snd (loadPanel env_assets ''deck2'' active_panel)) = Some ''deck2''
   \<and> localStorage (snd (loadPanel env_assets ''deck2'' active_panel)) ''lastPanel''
       = Some ''deck2''"
proof (intro conjI impI)
  let ?t = "set_current n (log [RemoveViews, GetPanel n] s)"
  have t: "currentPanel ?t = Some n" "localStorage ?t ''lastPanel'' = Some n"
    "calls ?t = calls s @ [RemoveViews, GetPanel n, SetItem ''lastPanel'' n]"
    by (simp_all add: set_current_state log_def)
  {
    assume f: "relay_getPanel e n = Inr d"
    show l: "loadPanel e n s = build_panel e d ?t"
      using f by (rule loadPanel_fetched)
    show "currentPanel ?t = Some n" by (rule t)
    show "localStorage ?t ''lastPanel'' = Some n" by (rule t)
    show "calls ?t = calls s @ [RemoveViews, GetPanel n, SetItem ''lastPanel'' n]" by (rule t)
    from build_panel_frame [of e d ?t "''address''"]
    obtain cs where "calls (snd (build_panel e d ?t)) = calls ?t @ Build d (currentPanel ?t) # cs"
      by blast
    then show "take (length (calls s) + 4) (calls (snd (loadPanel e n s)))
                 = calls s @ [RemoveViews, GetPanel n, SetItem ''lastPanel'' n, Build d (Some n)]"
      by (simp add: l t)
  }
  {
    fix berr
    assume "relay_getPanel e n = Inr d \<and> panel_build e d (Some n) = Inl berr"
    then have "loadPanel e n s
        = (Returned, closePanel (showAlertDialog ''Failed to load panel'' (build_errors berr)
                                   (log [Build d (Some n)] ?t)))"
      using loadPanel_fetched [of e n d s] build_panel_failed [of e d ?t berr] by (simp add: t)
  }
  note failed = this
  {
    assume h: "relay_getPanel e n = Inr d \<and> panel_build e d (Some n) = Inl err"
    note l = failed [OF h]
    show "fst (loadPanel e n s) = Returned" by (simp add: l)
    show "alert_show (snd (loadPanel e n s))"
      by (simp add: l closePanel_def removeItem_def showAlertDialog_def log_def)
    show "alert_title (snd (loadPanel e n s)) = Some ''Failed to load panel''"
      by (simp add: l closePanel_def removeItem_def showAlertDialog_def log_def)
    show "alert_message (snd (loadPanel e n s)) = Some (build_errors err)"
      by (simp add: l closePanel_def removeItem_def showAlertDialog_def log_def)
    show "currentPanel (snd (loadPanel e n s)) = None"
      by (simp add: l closePanel_def removeItem_def log_def)
    show "localStorage (snd (loadPanel e n s)) ''lastPanel'' = None"
      by (simp add: l closePanel_def removeItem_def log_def)
    show "panel_display (snd (loadPanel e n s)) = ''none''"
      by (simp add: l closePanel_def removeItem_def log_def)
    show "calls (snd (loadPanel e n s))
            = calls s @ [RemoveViews, GetPanel n, SetItem ''lastPanel'' n, Build d (Some n),
                         RemoveItem ''lastPanel'']"
      using t(3) by (simp add: l closePanel_def removeItem_def showAlertDialog_def log_def)
  }
  {
    assume h: "relay_getPanel e n = Inr d
        \<and> panel_build e d (Some n)
            = Inl (AssetError (Str ''bad asset'')
                     [Str ''missing icon.png'', Str ''missing font.ttf''])"
    show "alert_message (snd (loadPanel e n s))
            = Some [Str ''bad asset'', Str ''missing icon.png'', Str ''missing font.ttf'']"
      by (simp add: failed [OF h] closePanel_def removeItem_def showAlertDialog_def log_def)
  }
  show "build_errors (BuildError m) = [m]" by simp
  show "panel_build env_assets ''layout'' (currentPanel active_panel)
          = Inl (BuildError (Str ''asset not found''))"
    by (simp add: env_assets_def active_panel_def data_def)
  have a: "loadPanel env_assets ''deck2'' active_panel
             = (Returned,
                (log [Build ''layout'' (Some ''deck2'')]
                   (set_current ''deck2'' (log [RemoveViews, GetPanel ''deck2''] active_panel)))
                \<lparr>usedDeviceResources := []\<rparr>)"
    by (simp add: loadPanel_def build_panel_def request_devices_def acquireDevices_def
          set_current_state env_assets_def env_ok_def log_def)
  show "fst (loadPanel env_assets ''deck2'' active_panel) = Returned" by (simp add: a)
  show "\<not> alert_show (snd (loadPanel env_assets ''deck2'' active_panel))"
    by (simp add: a) (simp add: set_current_def setItem_def log_def active_panel_def data_def)
  show "currentPanel (snd (loadPanel env_assets ''deck2'' active_panel)) = Some ''deck2''"
    by (simp add: a set_current_def setItem_def log_def)
  show "localStorage (snd (loadPanel env_assets ''deck2'' active_panel)) ''lastPanel''
          = Some ''deck2''"
    by (simp add: a set_current_def setItem_def log_def)
qed

theorem build_failure_report_witness:
  "relay_getPanel env_bad_asset ''deck2'' = Inr ''layout''
   \<and> panel_build env_bad_asset ''layout'' (Some ''deck2'')
       = Inl (AssetError (Str ''bad asset'') [Str ''missing icon.png'', Str ''missing font.ttf''])
   \<and> currentPanel active_panel = Some ''deck1''
   \<and> calls (snd (loadPanel env_bad_asset ''deck2'' active_panel))
       = [RemoveViews, GetPanel ''deck2'', SetItem ''lastPanel'' ''deck2'',
          Build ''layout'' (Some ''deck2''), RemoveItem ''lastPanel'']
   \<and> alert_message (snd (loadPanel env_bad_asset ''deck2'' active_panel))
       = Some [Str ''bad asset'', Str ''missing icon.png'', Str ''missing font.ttf'']
   \<and> currentPanel (snd (loadPanel env_bad_asset ''deck2'' active_panel)) = None
   \<and> localStorage (snd (loadPanel env_bad_asset ''deck2'' active_panel)) ''lastPanel'' = None
   \<and> panel_display (snd (loadPanel env_bad_asset ''deck2'' active_panel)) = ''none''"
proof -
  let ?err = "AssetError (Str ''bad asset'') [Str ''missing icon.png'', Str ''missing font.ttf'']"
  have f: "relay_getPanel env_bad_asset ''deck2'' = Inr ''layout''"
    by (simp add: env_bad_asset_def env_ok_def)
  have b: "panel_build env_bad_asset ''layout'' (Some ''deck2'') = Inl ?err"
    by (simp add: env_bad_asset_def)
  have c: "currentPanel active_panel = Some ''deck1''" and c0: "calls active_panel = []"
    by (simp_all add: active_panel_def data_def)
  note r = build_failure_report [of env_bad_asset "''deck2''" "''layout''" active_panel ?err]
  have k: "calls (snd (loadPanel env_bad_asset ''deck2'' active_panel))
       = calls active_panel @ [RemoveViews, GetPanel ''deck2'', SetItem ''lastPanel'' ''deck2'',
          Build ''layout'' (Some ''deck2''), RemoveItem ''lastPanel'']"
    using r f b by blast
  have k': "calls (snd (loadPanel env_bad_asset ''deck2'' active_panel))
       = [RemoveViews, GetPanel ''deck2'', SetItem ''lastPanel'' ''deck2'',
          Build ''layout'' (Some ''deck2''), RemoveItem ''lastPanel'']"
    using k by (simp add: c0)
  have m: "alert_message (snd (loadPanel env_bad_asset ''deck2'' active_panel))
       = Some [Str ''bad asset'', Str ''missing icon.png'', Str ''missing font.ttf'']"
    using r f b by blast
  have n: "currentPanel (snd (loadPanel env_bad_asset ''deck2'' active_panel)) = None"
    using r f b by blast
  have l: "localStorage (snd (loadPanel env_bad_asset ''deck2'' active_panel)) ''lastPanel'' = None"
    using r f b by blast
  have h: "panel_display (snd (loadPanel env_bad_asset ''deck2'' active_panel)) = ''none''"
    using r f b by blast
  show ?thesis
    by (intro conjI) (rule f b c k' m n l h)+
qed

subsection \<open>The warnings about the devices\<close>

text \<open>
  Claim C6. One iteration of the loop over the settled results: a device that is not
  acquired adds the warning ``Unable to acquire device \<open>id\<close>''; an acquired device adds
  one warning when it has fewer buttons than the panel uses, naming the device, its
  count and the panel's, and then one warning for each requested axis that is off, in
  the order requested. An axis is off when the device's object holds it with a falsy
  value, or does not hold it and no object inherits a member of that name; it is not off
  when the object holds it with a truthy value, nor when the object does not hold it but
  inherits a member of that name. For device 3 requested with four buttons and the axis
  \<open>x\<close>, and acquired with two buttons and no axis, the warnings are exactly the two
  given. For device 3 requested with two buttons and the axis \<open>constructor\<close>, and
  acquired the same way, there is no warning, although the device has no such axis: the
  read \<open>device.axes[axis]\<close> finds \<open>Object.prototype.constructor\<close>.
\<close>

theorem device_warnings:
  "(\<not> isAcquired d \<longrightarrow>
      loop_body used (Fulfilled d) ws
        = Some (ws @ [Str (''Unable to acquire device '' @ int_text (device_id d))]))
   \<and> (isAcquired d \<and> map_of used (device_id d) = Some r \<longrightarrow>
      loop_body used (Fulfilled d) ws
        = Some (ws
            @ (if numButtons d < buttons r
               then [Str (''Device '' @ int_text (device_id d) @ '' has '' @ int_text (numButtons d)
                          @ '' buttons but this panel uses '' @ int_text (buttons r))]
               else [])
            @ map (\<lambda>a. Str (''Requested axis '' @ a @ '' not enabled on device ''
                             @ int_text (device_id d)))
                (filter (axis_off d) (case axes r of None \<Rightarrow> [] | Some as \<Rightarrow> as))))
   \<and> (map_of (device_axes d) a = None \<and> a \<notin> set object_prototype \<longrightarrow> axis_off d a)
   \<and> (map_of (device_axes d) a = Some False \<longrightarrow> axis_off d a)
   \<and> (map_of (device_axes d) a = Some True \<longrightarrow> \<not> axis_off d a)
   \<and> (map_of (device_axes d) a = None \<and> a \<in> set object_prototype \<longrightarrow> \<not> axis_off d a)
   \<and> warnings_loop [(3, \<lparr>buttons = 4, axes = Some [''x'']\<rparr>)]
        [Fulfilled \<lparr>device_id = 3, isAcquired = True, numButtons = 2, device_axes = []\<rparr>] []
       = Some [Str ''Device 3 has 2 buttons but this panel uses 4'',
               Str ''Requested axis x not enabled on device 3'']
   \<and> warnings_loop [(3, \<lparr>buttons = 4, axes = Some [''x'', ''y'']\<rparr>)]
        [Fulfilled \<lparr>device_id = 3, isAcquired = True, numButtons = 4,
                    device_axes = [(''x'', False), (''y'', True)]\<rparr>] []
       = Some [Str ''Requested axis x not enabled on device 3'']
   \<and> map_of (device_axes \<lparr>device_id = 3, isAcquired = True, numButtons = 2, device_axes = []\<rparr>)
        ''constructor'' = None
   \<and> warnings_loop [(3, \<lparr>buttons = 2, axes = Some [''constructor'']\<rparr>)]
        [Fulfilled \<lparr>device_id = 3, isAcquired = True, numButtons = 2, device_axes = []\<rparr>] []
       = Some []"
proof (intro conjI impI)
  show "loop_body used (Fulfilled d) ws
          = Some (ws @ [Str (''Unable to acquire device '' @ int_text (device_id d))])"
    if "\<not> isAcquired d"
    using that by simp
  show "loop_body used (Fulfilled d) ws
        = Some (ws
            @ (if numButtons d < buttons r
               then [Str (''Device '' @ int_text (device_id d) @ '' has '' @ int_text (numButtons d)
                          @ '' buttons but this panel uses '' @ int_text (buttons r))]
               else [])
            @ map (\<lambda>a. Str (''Requested axis '' @ a @ '' not enabled on device ''
                             @ int_text (device_id d)))
                (filter (axis_off d) (case axes r of None \<Rightarrow> [] | Some as \<Rightarrow> as)))"
    if "isAcquired d \<and> map_of used (device_id d) = Some r"
    using that by (simp add: axes_loop_append split: option.splits)
  show "axis_off d a" if "map_of (device_axes d) a = None \<and> a \<notin> set object_prototype"
    using that by (simp add: axis_off_def)
  show "axis_off d a" if "map_of (device_axes d) a = Some False"
    using that by (simp add: axis_off_def)
  show "\<not> axis_off d a" if "map_of (device_axes d) a = Some True"
    using that by (simp add: axis_off_def)
  show "\<not> axis_off d a" if "map_of (device_axes d) a = None \<and> a \<in> set object_prototype"
    using that by (simp add: axis_off_def)
  show "warnings_loop [(3, \<lparr>buttons = 4, axes = Some [''x'']\<rparr>)]
        [Fulfilled \<lparr>device_id = 3, isAcquired = True, numButtons = 2, device_axes = []\<rparr>] []
       = Some [Str ''Device 3 has 2 buttons but this panel uses 4'',
               Str ''Requested axis x not enabled on device 3'']"
    by (simp add: axis_off_def object_prototype_def int_text_2 int_text_3 int_text_4)
  show "warnings_loop [(3, \<lparr>buttons = 4, axes = Some [''x'', ''y'']\<rparr>)]
        [Fulfilled \<lparr>device_id = 3, isAcquired = True, numButtons = 4,
                    device_axes = [(''x'', False), (''y'', True)]\<rparr>] []
       = Some [Str ''Requested axis x not enabled on device 3'']"
    by (simp add: axis_off_def int_text_3)
  show "map_of (device_axes \<lparr>device_id = 3, isAcquired = True, numButtons = 2, device_axes = []\<rparr>)
          ''constructor'' = None"
    by simp
  show "warnings_loop [(3, \<lparr>buttons = 2, axes = Some [''constructor'']\<rparr>)]
        [Fulfilled \<lparr>device_id = 3, isAcquired = True, numButtons = 2, device_axes = []\<rparr>] []
       = Some []"
    by (simp add: axis_off_def object_prototype_def)
qed

theorem device_warnings_witness:
  "\<not> isAcquired \<lparr>device_id = 3, isAcquired = False, numButtons = 0, device_axes = []\<rparr>
   \<and> loop_body two_devices
        (Fulfilled \<lparr>device_id = 3, isAcquired = False, numButtons = 0, device_axes = []\<rparr>) []
       = Some [Str ''Unable to acquire device 3'']
   \<and> isAcquired device3
   \<and> map_of [(3, \<lparr>buttons = 4, axes = Some [''x'']\<rparr>)] (device_id device3)
       = Some \<lparr>buttons = 4, axes = Some [''x'']\<rparr>
   \<and> loop_body [(3, \<lparr>buttons = 4, axes = Some [''x'']\<rparr>)] (Fulfilled device3) []
       = Some [Str ''Device 3 has 2 buttons but this panel uses 4'',
               Str ''Requested axis x not enabled on device 3'']
   \<and> map_of (device_axes device3) ''x'' = None
   \<and> ''x'' \<notin> set object_prototype
   \<and> axis_off device3 ''x''
   \<and> map_of (device_axes device3) ''toString'' = None
   \<and> ''toString'' \<in> set object_prototype
   \<and> \<not> axis_off device3 ''toString''
   \<and> map_of [(''x'', False), (''y'', True)] ''x'' = Some False
   \<and> axis_off (device3\<lparr>device_axes := [(''x'', False), (''y'', True)]\<rparr>) ''x''
   \<and> map_of [(''x'', False), (''y'', True)] ''y'' = Some True
   \<and> \<not> axis_off (device3\<lparr>device_axes := [(''x'', False), (''y'', True)]\<rparr>) ''y''"
proof -
  let ?u = "[(3, \<lparr>buttons = 4, axes = Some [''x'']\<rparr>)]"
  let ?r = "\<lparr>buttons = 4, axes = Some [''x'']\<rparr>"
  let ?n = "\<lparr>device_id = 3, isAcquired = False, numButtons = 0, device_axes = []\<rparr>"
  let ?b = "device3\<lparr>device_axes := [(''x'', False), (''y'', True)]\<rparr>"
  have n: "\<not> isAcquired ?n" by simp
  have q: "isAcquired device3" and f: "map_of ?u (device_id device3) = Some ?r"
    by (simp_all add: device3_def)
  have x0: "map_of (device_axes device3) ''x'' = None"
    and t0: "map_of (device_axes device3) ''toString'' = None"
    by (simp_all add: device3_def)
  have x1: "''x'' \<notin> set object_prototype" and t1: "''toString'' \<in> set object_prototype"
    by (simp_all add: object_prototype_def)
  have bx: "map_of (device_axes ?b) ''x'' = Some False"
    and by': "map_of (device_axes ?b) ''y'' = Some True"
    by simp_all
  have bx': "map_of [(''x'', False), (''y'', True)] ''x'' = Some False"
    and by'': "map_of [(''x'', False), (''y'', True)] ''y'' = Some True"
    by simp_all
  have c1: "loop_body two_devices (Fulfilled ?n) [] = Some [Str ''Unable to acquire device 3'']"
    using device_warnings [of ?n two_devices "[]" ?r "''x''"] n by (simp add: int_text_3)
  have x2: "axis_off device3 ''x''"
    using device_warnings [of device3 ?u "[]" ?r "''x''"] x0 x1 by blast
  have t2: "\<not> axis_off device3 ''toString''"
    using device_warnings [of device3 ?u "[]" ?r "''toString''"] t0 t1 by blast
  have bx2: "axis_off ?b ''x''"
    using device_warnings [of ?b ?u "[]" ?r "''x''"] bx by blast
  have by2: "\<not> axis_off ?b ''y''"
    using device_warnings [of ?b ?u "[]" ?r "''y''"] by' by blast
  have "loop_body ?u (Fulfilled device3) []
          = Some ([]
            @ (if numButtons device3 < buttons ?r
               then [Str (''Device '' @ int_text (device_id device3) @ '' has ''
                          @ int_text (numButtons device3)
                          @ '' buttons but this panel uses '' @ int_text (buttons ?r))]
               else [])
            @ map (\<lambda>a. Str (''Requested axis '' @ a @ '' not enabled on device ''
                             @ int_text (device_id device3)))
                (filter (axis_off device3) (case axes ?r of None \<Rightarrow> [] | Some as \<Rightarrow> as)))"
    using device_warnings [of device3 ?u "[]" ?r "''x''"] q f by blast
  then have c2: "loop_body ?u (Fulfilled device3) []
       = Some [Str ''Device 3 has 2 buttons but this panel uses 4'',
               Str ''Requested axis x not enabled on device 3'']"
    using x2 by (simp add: device3_def int_text_2 int_text_3 int_text_4)
  show ?thesis
    by (intro conjI) (rule n c1 q f c2 x0 x1 x2 t0 t1 t2 bx' bx2 by'' by2)+
qed

text \<open>
  Claim C7. \<open>acquireDevices\<close> calls \<open>relay.acquireDevice\<close> once for each key of
  \<open>panel.usedDeviceResources\<close> and yields one settled result for each. The loop does
  not stop at a fulfilled result whose device is not acquired: it goes on with the rest,
  and when every iteration completes the warnings are those of all the results, in
  order. When the loop ends with the warnings \<open>warnings\<close>, the request returns, having
  shown one alert titled ``Device info'' with these warnings if there is any, and none
  otherwise; this is what \<open>loadPanel\<close> does after a successful build. But a failure
  that is a rejected promise does cut the pass short: with devices 1 and 2 used, device
  1 fulfilled as not acquired and the promise for device 2 rejected, both requests are
  made, the first iteration collects ``Unable to acquire device 1'', the second throws,
  and the pass ends by the exception with no alert shown. (When the results come is
  outside the model: \<open>Promise.allSettled\<close> hands them over together.)
\<close>

theorem reconciliation_batch:
  "fst (acquireDevices e s) = map (relay_acquireDevice e) (map fst (usedDeviceResources s))
   \<and> calls (snd (acquireDevices e s))
       = calls s @ map AcquireDevice (map fst (usedDeviceResources s))
   \<and> (\<not> isAcquired d \<longrightarrow>
        warnings_loop used (Fulfilled d # rest) ws
          = warnings_loop used rest
              (ws @ [Str (''Unable to acquire device '' @ int_text (device_id d))]))
   \<and> ((\<forall>r \<in> set rs. loop_body used r [] \<noteq> None) \<longrightarrow>
        warnings_loop used rs [] = Some (concat (map (\<lambda>r. the (loop_body used r [])) rs)))
   \<and> (warnings_loop (usedDeviceResources s) (fst (acquireDevices e s)) [] = Some warnings \<longrightarrow>
        request_devices e s
          = (Returned, if warnings \<noteq> []
                       then showAlertDialog ''Device info'' warnings (snd (acquireDevices e s))
                       else snd (acquireDevices e s)))
   \<and> (relay_getPanel e n = Inr pd \<and> panel_build e pd (Some n) = Inr built \<longrightarrow>
        loadPanel e n s
          = request_devices e
              ((log [Build pd (Some n)] (set_current n (log [RemoveViews, GetPanel n] s)))
                 \<lparr>usedDeviceResources := built\<rparr>))
   \<and> fst (acquireDevices env_rejecting (data\<lparr>usedDeviceResources := two_devices\<rparr>))
       = [Fulfilled \<lparr>device_id = 1, isAcquired = False, numButtons = 0, device_axes = []\<rparr>,
          Rejected]
   \<and> calls (snd (acquireDevices env_rejecting (data\<lparr>usedDeviceResources := two_devices\<rparr>)))
       = [AcquireDevice 1, AcquireDevice 2]
   \<and> loop_body two_devices
        (Fulfilled \<lparr>device_id = 1, isAcquired = False, numButtons = 0, device_axes = []\<rparr>) []
       = Some [Str ''Unable to acquire device 1'']
   \<and> warnings_loop two_devices
        [Fulfilled \<lparr>device_id = 1, isAcquired = False, numButtons = 0, device_axes = []\<rparr>,
         Rejected] [] = None
   \<and> fst (request_devices env_rejecting (data\<lparr>usedDeviceResources := two_devices\<rparr>)) = Threw
   \<and> \<not> alert_show (snd (request_devices env_rejecting (data\<lparr>usedDeviceResources := two_devices\<rparr>)))
   \<and> alert_message (snd (request_devices env_rejecting (data\<lparr>usedDeviceResources := two_devices\<rparr>)))
       = None
   \<and> fst (loadPanel (env_rejecting\<lparr>panel_build := (\<lambda>d cp. Inr two_devices)\<rparr>) ''deck1'' data)
       = Threw
   \<and> \<not> alert_show
         (snd (loadPanel (env_rejecting\<lparr>panel_build := (\<lambda>d cp. Inr two_devices)\<rparr>) ''deck1'' data))
   \<and> calls (snd (loadPanel (env_rejecting\<lparr>panel_build := (\<lambda>d cp. Inr two_devices)\<rparr>) ''deck1'' data))
       = [RemoveViews, GetPanel ''deck1'', SetItem ''lastPanel'' ''deck1'',
          Build ''layout'' (Some ''deck1''), AcquireDevice 1, AcquireDevice 2]"
proof (intro conjI impI)
  show "fst (acquireDevices e s) = map (relay_acquireDevice e) (map fst (usedDeviceResources s))"
    by (simp add: acquireDevices_def)
  show "calls (snd (acquireDevices e s))
          = calls s @ map AcquireDevice (map fst (usedDeviceResources s))"
    by (simp add: acquireDevices_def log_def)
  show "warnings_loop used (Fulfilled d # rest) ws
          = warnings_loop used rest
              (ws @ [Str (''Unable to acquire device '' @ int_text (device_id d))])"
    if "\<not> isAcquired d"
    using that by simp
  show "warnings_loop used rs [] = Some (concat (map (\<lambda>r. the (loop_body used r [])) rs))"
    if "\<forall>r \<in> set rs. loop_body used r [] \<noteq> None"
    using warnings_loop_concat [OF that, of "[]"] by simp
  show "request_devices e s
          = (Returned, if warnings \<noteq> []
                       then showAlertDialog ''Device info'' warnings (snd (acquireDevices e s))
                       else snd (acquireDevices e s))"
    if "warnings_loop (usedDeviceResources s) (fst (acquireDevices e s)) [] = Some warnings"
    using that by (simp add: request_devices_def acquireDevices_def log_def)
  show "loadPanel e n s
          = request_devices e
              ((log [Build pd (Some n)] (set_current n (log [RemoveViews, GetPanel n] s)))
                 \<lparr>usedDeviceResources := built\<rparr>)"
    if "relay_getPanel e n = Inr pd \<and> panel_build e pd (Some n) = Inr built"
    using that loadPanel_fetched [of e n pd s]
      build_panel_built [of e pd "set_current n (log [RemoveViews, GetPanel n] s)" built]
    by (simp add: set_current_state)
  let ?s = "data\<lparr>usedDeviceResources := two_devices\<rparr>"
  show "fst (acquireDevices env_rejecting ?s)
       = [Fulfilled \<lparr>device_id = 1, isAcquired = False, numButtons = 0, device_axes = []\<rparr>,
          Rejected]"
    by (rule rejecting_results)
  show "calls (snd (acquireDevices env_rejecting ?s)) = [AcquireDevice 1, AcquireDevice 2]"
    by (simp add: acquireDevices_def log_def two_devices_def data_def)
  show "loop_body two_devices
        (Fulfilled \<lparr>device_id = 1, isAcquired = False, numButtons = 0, device_axes = []\<rparr>) []
       = Some [Str ''Unable to acquire device 1'']"
    by (simp add: int_text_1)
  show "warnings_loop two_devices
        [Fulfilled \<lparr>device_id = 1, isAcquired = False, numButtons = 0, device_axes = []\<rparr>,
         Rejected] [] = None"
    by simp
  have none: "warnings_loop (usedDeviceResources ?s) (fst (acquireDevices env_rejecting ?s)) []
                = None"
    by (rule warnings_loop_rejected) (simp add: rejecting_results)
  have thrown: "request_devices env_rejecting ?s = (Threw, snd (acquireDevices env_rejecting ?s))"
    using none by (simp add: request_devices_def acquireDevices_def log_def)
  show "fst (request_devices env_rejecting ?s) = Threw" by (simp add: thrown)
  show "\<not> alert_show (snd (request_devices env_rejecting ?s))"
    by (simp add: thrown) (simp add: acquireDevices_def log_def data_def)
  show "alert_message (snd (request_devices env_rejecting ?s)) = None"
    by (simp add: thrown) (simp add: acquireDevices_def log_def data_def)
  let ?e = "env_rejecting\<lparr>panel_build := (\<lambda>d cp. Inr two_devices)\<rparr>"
  let ?t = "(log [Build ''layout'' (Some ''deck1'')]
               (set_current ''deck1'' (log [RemoveViews, GetPanel ''deck1''] data)))
            \<lparr>usedDeviceResources := two_devices\<rparr>"
  have lp: "loadPanel ?e ''deck1'' data = request_devices ?e ?t"
    by (simp add: loadPanel_def build_panel_def set_current_state
          env_rejecting_def env_unacquired_def env_ok_def)
  have rs: "fst (acquireDevices ?e ?t) = fst (acquireDevices env_rejecting ?s)"
    by (simp add: acquireDevices_def)
  have "warnings_loop (usedDeviceResources ?t) (fst (acquireDevices ?e ?t)) [] = None"
    unfolding rs using none by simp
  then have thrown': "request_devices ?e ?t = (Threw, snd (acquireDevices ?e ?t))"
    by (simp add: request_devices_def acquireDevices_def log_def)
  show "fst (loadPanel ?e ''deck1'' data) = Threw" by (simp add: lp thrown')
  show "\<not> alert_show (snd (loadPanel ?e ''deck1'' data))"
    by (simp add: lp thrown')
       (simp add: acquireDevices_def set_current_def setItem_def log_def data_def)
  show "calls (snd (loadPanel ?e ''deck1'' data))
          = [RemoveViews, GetPanel ''deck1'', SetItem ''lastPanel'' ''deck1'',
             Build ''layout'' (Some ''deck1''), AcquireDevice 1, AcquireDevice 2]"
    by (simp add: lp thrown')
       (simp add: acquireDevices_def set_current_def setItem_def log_def data_def two_devices_def)
qed

theorem reconciliation_batch_witness:
  "\<not> isAcquired \<lparr>device_id = 1, isAcquired = False, numButtons = 0, device_axes = []\<rparr>
   \<and> fst (acquireDevices env_mixed (data\<lparr>usedDeviceResources := two_devices\<rparr>))
       = [Fulfilled \<lparr>device_id = 1, isAcquired = False, numButtons = 0, device_axes = []\<rparr>,
          Fulfilled \<lparr>device_id = 2, isAcquired = True, numButtons = 8,
                     device_axes = [(''x'', True)]\<rparr>]
   \<and> loop_body two_devices
        (Fulfilled \<lparr>device_id = 1, isAcquired = False, numButtons = 0, device_axes = []\<rparr>) []
       \<noteq> None
   \<and> loop_body two_devices
        (Fulfilled \<lparr>device_id = 2, isAcquired = True, numButtons = 8,
                    device_axes = [(''x'', True)]\<rparr>) []
       \<noteq> None
   \<and> warnings_loop two_devices
        (fst (acquireDevices env_mixed (data\<lparr>usedDeviceResources := two_devices\<rparr>))) []
       = Some (concat (map (\<lambda>r. the (loop_body two_devices r []))
                 (fst (acquireDevices env_mixed (data\<lparr>usedDeviceResources := two_devices\<rparr>)))))
   \<and> warnings_loop (usedDeviceResources (data\<lparr>usedDeviceResources := two_devices\<rparr>))
        (fst (acquireDevices env_mixed (data\<lparr>usedDeviceResources := two_devices\<rparr>))) []
       = Some [Str ''Unable to acquire device 1'',
               Str ''Device 2 has 8 buttons but this panel uses 12'',
               Str ''Requested axis y not enabled on device 2'']
   \<and> relay_getPanel env_mixed ''deck1'' = Inr ''layout''
   \<and> panel_build (env_mixed\<lparr>panel_build := (\<lambda>d cp. Inr two_devices)\<rparr>) ''layout'' (Some ''deck1'')
       = Inr two_devices
   \<and> alert_title (snd (request_devices env_mixed (data\<lparr>usedDeviceResources := two_devices\<rparr>)))
       = Some ''Device info''
   \<and> alert_message (snd (request_devices env_mixed (data\<lparr>usedDeviceResources := two_devices\<rparr>)))
       = Some [Str ''Unable to acquire device 1'',
               Str ''Device 2 has 8 buttons but this panel uses 12'',
               Str ''Requested axis y not enabled on device 2'']
   \<and> calls (snd (request_devices env_mixed (data\<lparr>usedDeviceResources := two_devices\<rparr>)))
       = [AcquireDevice 1, AcquireDevice 2]
   \<and> alert_show (snd (loadPanel (env_mixed\<lparr>panel_build := (\<lambda>d cp. Inr two_devices)\<rparr>) ''deck1'' data))"
proof -
  let ?s = "data\<lparr>usedDeviceResources := two_devices\<rparr>"
  let ?e = "env_mixed\<lparr>panel_build := (\<lambda>d cp. Inr two_devices)\<rparr>"
  let ?w = "[Str ''Unable to acquire device 1'',
             Str ''Device 2 has 8 buttons but this panel uses 12'',
             Str ''Requested axis y not enabled on device 2'']"
  have used: "usedDeviceResources ?s = two_devices" by simp
  have w: "warnings_loop (usedDeviceResources ?s) (fst (acquireDevices env_mixed ?s)) [] = Some ?w"
    by (simp only: used mixed_results mixed_warnings)
  have all: "\<forall>r \<in> set (fst (acquireDevices env_mixed ?s)). loop_body two_devices r [] \<noteq> None"
    by (simp only: mixed_results) (simp add: two_devices_def Let_def)
  have f: "relay_getPanel ?e ''deck1'' = Inr ''layout''"
    by (simp add: env_mixed_def env_ok_def)
  have f': "relay_getPanel env_mixed ''deck1'' = Inr ''layout''"
    by (simp add: env_mixed_def env_ok_def)
  have b: "panel_build ?e ''layout'' (Some ''deck1'') = Inr two_devices" by simp
  have same: "fst (acquireDevices ?e s) = fst (acquireDevices env_mixed s)" for s
    by (simp add: acquireDevices_def)
  note r1 = reconciliation_batch [of env_mixed ?s
      "\<lparr>device_id = 1, isAcquired = False, numButtons = 0, device_axes = []\<rparr>"
      two_devices "[]" "[]" "fst (acquireDevices env_mixed ?s)" ?w "''deck1''" "''layout''" two_devices]
  have rd: "request_devices env_mixed ?s
              = (Returned, showAlertDialog ''Device info'' ?w (snd (acquireDevices env_mixed ?s)))"
    using r1 w by simp
  have c: "calls (snd (acquireDevices env_mixed ?s)) = [AcquireDevice 1, AcquireDevice 2]"
    using r1 by (simp add: two_devices_def data_def)
  note r2 = reconciliation_batch [of ?e data
      "\<lparr>device_id = 1, isAcquired = False, numButtons = 0, device_axes = []\<rparr>"
      two_devices "[]" "[]" "[]" ?w "''deck1''" "''layout''" two_devices]
  let ?t = "(log [Build ''layout'' (Some ''deck1'')] (set_current ''deck1'' (log [RemoveViews, GetPanel ''deck1''] data)))
              \<lparr>usedDeviceResources := two_devices\<rparr>"
  have lp: "loadPanel ?e ''deck1'' data = request_devices ?e ?t"
    using r2 f b by simp
  have rs: "fst (acquireDevices ?e ?t) = fst (acquireDevices env_mixed ?s)"
    by (simp add: acquireDevices_def)
  have w2: "warnings_loop (usedDeviceResources ?t) (fst (acquireDevices ?e ?t)) [] = Some ?w"
    unfolding rs using w by simp
  have "request_devices ?e ?t = (Returned, showAlertDialog ''Device info'' ?w (snd (acquireDevices ?e ?t)))"
    using reconciliation_batch [of ?e ?t
      "\<lparr>device_id = 1, isAcquired = False, numButtons = 0, device_axes = []\<rparr>"
      two_devices "[]" "[]" "[]" ?w "''deck1''" "''layout''" two_devices] w2 by simp
  with lp have shown: "alert_show (snd (loadPanel ?e ''deck1'' data))"
    by (simp add: showAlertDialog_def)
  have each:
    "loop_body two_devices
       (Fulfilled \<lparr>device_id = 1, isAcquired = False, numButtons = 0, device_axes = []\<rparr>) []
      \<noteq> None
     \<and> loop_body two_devices
         (Fulfilled \<lparr>device_id = 2, isAcquired = True, numButtons = 8,
                     device_axes = [(''x'', True)]\<rparr>) []
        \<noteq> None"
    using all by (simp only: mixed_results) simp
  have cc: "warnings_loop two_devices (fst (acquireDevices env_mixed ?s)) []
              = Some (concat (map (\<lambda>r. the (loop_body two_devices r []))
                        (fst (acquireDevices env_mixed ?s))))"
    using r1 all by blast
  have n1: "\<not> isAcquired \<lparr>device_id = 1, isAcquired = False, numButtons = 0, device_axes = []\<rparr>"
    by simp
  have w': "warnings_loop (usedDeviceResources ?s) (fst (acquireDevices env_mixed ?s)) [] = Some ?w"
    by (rule w)
  have ti: "alert_title (snd (request_devices env_mixed ?s)) = Some ''Device info''"
    by (simp add: rd showAlertDialog_def)
  have me: "alert_message (snd (request_devices env_mixed ?s)) = Some ?w"
    by (simp add: rd showAlertDialog_def)
  have ca: "calls (snd (request_devices env_mixed ?s)) = [AcquireDevice 1, AcquireDevice 2]"
    by (simp add: rd showAlertDialog_def c)
  show ?thesis
    by (intro conjI) (rule n1 mixed_results each [THEN conjunct1] each [THEN conjunct2]
          cc w' f' b ti me ca shown)+
qed

text \<open>
  Claim C10. An iteration on a rejected promise throws, so the loop throws as soon as
  one result is rejected, whatever the others are; it completes when no result is
  rejected and every acquired device has an entry in \<open>panel.usedDeviceResources\<close>. When
  a result is rejected, the request of the devices ends by the exception, after the
  acquisition calls and with the alert dialog as it was: no warning is shown.
\<close>

theorem rejected_acquisition_faults:
  "loop_body used Rejected ws = None
   \<and> (Rejected \<in> set rs \<longrightarrow> warnings_loop used rs ws = None)
   \<and> (Rejected \<notin> set rs
        \<and> (\<forall>d. Fulfilled d \<in> set rs \<and> isAcquired d \<longrightarrow> map_of used (device_id d) \<noteq> None)
       \<longrightarrow> warnings_loop used rs ws \<noteq> None)
   \<and> (Rejected \<in> set (fst (acquireDevices e s)) \<longrightarrow>
        request_devices e s = (Threw, snd (acquireDevices e s))
        \<and> alert_show (snd (request_devices e s)) = alert_show s
        \<and> alert_title (snd (request_devices e s)) = alert_title s
        \<and> alert_message (snd (request_devices e s)) = alert_message s)"
proof (intro conjI impI)
  show "loop_body used Rejected ws = None" by simp
  show "warnings_loop used rs ws = None" if "Rejected \<in> set rs"
    using that by (rule warnings_loop_rejected)
  show "warnings_loop used rs ws \<noteq> None"
    if "Rejected \<notin> set rs
        \<and> (\<forall>d. Fulfilled d \<in> set rs \<and> isAcquired d \<longrightarrow> map_of used (device_id d) \<noteq> None)"
    using that warnings_loop_total [of rs used ws] by blast
  assume r: "Rejected \<in> set (fst (acquireDevices e s))"
  have none: "warnings_loop (usedDeviceResources s) (fst (acquireDevices e s)) [] = None"
    using r by (rule warnings_loop_rejected)
  then show eq: "request_devices e s = (Threw, snd (acquireDevices e s))"
    by (simp add: request_devices_def acquireDevices_def log_def)
  show "alert_show (snd (request_devices e s)) = alert_show s"
    by (simp add: eq) (simp add: acquireDevices_def log_def)
  show "alert_title (snd (request_devices e s)) = alert_title s"
    by (simp add: eq) (simp add: acquireDevices_def log_def)
  show "alert_message (snd (request_devices e s)) = alert_message s"
    by (simp add: eq) (simp add: acquireDevices_def log_def)
qed

theorem rejected_acquisition_faults_witness:
  "Rejected \<in> set (fst (acquireDevices env_rejecting (data\<lparr>usedDeviceResources := two_devices\<rparr>)))
   \<and> warnings_loop two_devices
        (fst (acquireDevices env_rejecting (data\<lparr>usedDeviceResources := two_devices\<rparr>))) [] = None
   \<and> fst (request_devices env_rejecting (data\<lparr>usedDeviceResources := two_devices\<rparr>)) = Threw
   \<and> \<not> alert_show (snd (request_devices env_rejecting (data\<lparr>usedDeviceResources := two_devices\<rparr>)))
   \<and> Rejected \<notin> set [Fulfilled device3]
   \<and> isAcquired device3
   \<and> map_of [(3, \<lparr>buttons = 4, axes = Some [''x'']\<rparr>)] (device_id device3) \<noteq> None
   \<and> warnings_loop [(3, \<lparr>buttons = 4, axes = Some [''x'']\<rparr>)] [Fulfilled device3] [] \<noteq> None"
proof -
  let ?s = "data\<lparr>usedDeviceResources := two_devices\<rparr>"
  let ?u = "[(3, \<lparr>buttons = 4, axes = Some [''x'']\<rparr>)]"
  have r: "Rejected \<in> set (fst (acquireDevices env_rejecting ?s))"
    by (simp add: rejecting_results)
  have t: "Rejected \<notin> set [Fulfilled device3]" by simp
  have k: "\<forall>d. Fulfilled d \<in> set [Fulfilled device3] \<and> isAcquired d
              \<longrightarrow> map_of ?u (device_id d) \<noteq> None"
    by (simp add: device3_def)
  have a: "\<not> alert_show ?s" by (simp add: data_def)
  have k': "isAcquired device3 \<and> map_of ?u (device_id device3) \<noteq> None"
    by (simp add: device3_def)
  show ?thesis
    using r t k k' a
      rejected_acquisition_faults [of two_devices "[]"
        "fst (acquireDevices env_rejecting ?s)" env_rejecting ?s]
      rejected_acquisition_faults [of ?u "[]" "[Fulfilled device3]" env_rejecting ?s]
    by simp
qed

subsection \<open>The stored address and port\<close>

text \<open>
  Claim C8. \<open>submit\<close> stores the address and the text of the port, and nothing but
  another \<open>submit\<close> writes these two keys. At the next start, after any events other
  than a submit: when the submitted address is not empty, \<open>created\<close> reads the address
  back as it was and the port as the string of its text, and its first call is
  \<open>relay.connect\<close> with these two; when the submitted address is empty, \<open>created\<close>
  reads nothing back: address and port are those of \<open>data()\<close> and no call is made.
\<close>

theorem roundtrip_text:
  "(address s \<noteq> [] \<and> SubmitConnect \<notin> set evs \<longrightarrow>
      address (next_startup e' (run e2 evs (snd (submit e s)))) = address s
      \<and> port (next_startup e' (run e2 evs (snd (submit e s)))) = Str (toString (port s))
      \<and> take 1 (calls (next_startup e' (run e2 evs (snd (submit e s)))))
          = [Connect (address s) (Str (toString (port s)))])
   \<and> (address s = [] \<and> SubmitConnect \<notin> set evs \<longrightarrow>
      address (next_startup e' (run e2 evs (snd (submit e s)))) = address data
      \<and> port (next_startup e' (run e2 evs (snd (submit e s)))) = port data
      \<and> calls (next_startup e' (run e2 evs (snd (submit e s)))) = [])"
proof (intro conjI impI)
  let ?u = "run e2 evs (snd (submit e s))"
  let ?d = "data\<lparr>localStorage := localStorage ?u\<rparr>"
  let ?t = "?d\<lparr>address := address s, port := Str (toString (port s))\<rparr>"
  have st: "localStorage ?u ''address'' = Some (address s)
            \<and> localStorage ?u ''port'' = Some (toString (port s))"
    if "SubmitConnect \<notin> set evs"
    using that submit_storage [of e s]
      run_storage [of evs "''address''" e2 "snd (submit e s)"]
      run_storage [of evs "''port''" e2 "snd (submit e s)"]
    by simp
  {
    assume h: "address s \<noteq> [] \<and> SubmitConnect \<notin> set evs"
    have n: "next_startup e' ?u = snd (connect e' (address s) (Str (toString (port s))) ?t)"
      using st h by (simp add: next_startup_def created_def)
    note f = connect_frame [of e' "address s" "Str (toString (port s))" ?t "''address''"]
    show "address (next_startup e' ?u) = address s"
      using f by (simp add: n)
    show "port (next_startup e' ?u) = Str (toString (port s))"
      using f by (simp add: n)
    from f obtain cs where
      "calls (snd (connect e' (address s) (Str (toString (port s))) ?t))
         = calls ?t @ Connect (address s) (Str (toString (port s))) # cs"
      by blast
    then show "take 1 (calls (next_startup e' ?u)) = [Connect (address s) (Str (toString (port s)))]"
      by (simp add: n data_def)
  }
  {
    assume h: "address s = [] \<and> SubmitConnect \<notin> set evs"
    have n: "next_startup e' ?u = ?d\<lparr>showConnectDialog := True\<rparr>"
      using st h by (simp add: next_startup_def created_def)
    show "address (next_startup e' ?u) = address data" by (simp add: n)
    show "port (next_startup e' ?u) = port data" by (simp add: n)
    show "calls (next_startup e' ?u) = []" by (simp add: n data_def)
  }
qed

theorem roundtrip_text_witness:
  "address (data\<lparr>address := ''host'', port := Num 8080\<rparr>) \<noteq> []
   \<and> SubmitConnect \<notin> set [DismissAlert, KeyDown ''Escape'']
   \<and> address (next_startup env_ok (run env_ok [DismissAlert, KeyDown ''Escape'']
        (snd (submit env_refused (data\<lparr>address := ''host'', port := Num 8080\<rparr>))))) = ''host''
   \<and> port (next_startup env_ok (run env_ok [DismissAlert, KeyDown ''Escape'']
        (snd (submit env_refused (data\<lparr>address := ''host'', port := Num 8080\<rparr>))))) = Str ''8080''
   \<and> take 1 (calls (next_startup env_ok (run env_ok [DismissAlert, KeyDown ''Escape'']
        (snd (submit env_refused (data\<lparr>address := ''host'', port := Num 8080\<rparr>))))))
       = [Connect ''host'' (Str ''8080'')]
   \<and> address (data\<lparr>port := Str ''8080''\<rparr>) = []
   \<and> SubmitConnect \<notin> set []
   \<and> port (next_startup env_ok (run env_ok [] (snd (submit env_ok (data\<lparr>port := Str ''8080''\<rparr>)))))
       = Num 32155
   \<and> calls (next_startup env_ok (run env_ok [] (snd (submit env_ok (data\<lparr>port := Str ''8080''\<rparr>)))))
       = []"
proof -
  let ?s = "data\<lparr>address := ''host'', port := Num 8080\<rparr>"
  let ?evs = "[DismissAlert, KeyDown ''Escape'']"
  have a: "address ?s \<noteq> []" and b: "SubmitConnect \<notin> set ?evs" by simp_all
  have a': "address (data\<lparr>port := Str ''8080''\<rparr>) = []" and b': "SubmitConnect \<notin> set []"
    by (simp_all add: data_def)
  have v: "address ?s = ''host''" "toString (port ?s) = ''8080''"
    by (simp_all add: int_text_8080)
  have d: "port data = Num 32155" by (simp add: data_def)
  note r1 = roundtrip_text [of ?s ?evs env_ok env_ok env_refused]
  note r2 = roundtrip_text [of "data\<lparr>port := Str ''8080''\<rparr>" "[]" env_ok env_ok env_ok]
  have c1: "address (next_startup env_ok (run env_ok ?evs (snd (submit env_refused ?s)))) = ''host''"
    using r1 a b v by metis
  have c2: "port (next_startup env_ok (run env_ok ?evs (snd (submit env_refused ?s)))) = Str ''8080''"
    using r1 a b v by metis
  have c3: "take 1 (calls (next_startup env_ok (run env_ok ?evs (snd (submit env_refused ?s)))))
              = [Connect ''host'' (Str ''8080'')]"
    using r1 a b v by metis
  have c4: "port (next_startup env_ok (run env_ok [] (snd (submit env_ok (data\<lparr>port := Str ''8080''\<rparr>)))))
              = Num 32155"
    using r2 a' b' d by metis
  have c5: "calls (next_startup env_ok (run env_ok [] (snd (submit env_ok (data\<lparr>port := Str ''8080''\<rparr>)))))
              = []"
    using r2 a' b' by blast
  show ?thesis
    by (intro conjI) (rule a b c1 c2 c3 a' b' c4 c5)+
qed

text \<open>
  Port 8080 submitted with an empty address: the next start has port 32155 and does not
  connect. Port 8080 submitted as a number with the address \<open>host\<close>: the next start
  has the string \<open>8080\<close>.
\<close>

theorem roundtrip_fails:
  "port (next_startup env_ok (snd (submit env_ok (data\<lparr>address := [], port := Num 8080\<rparr>))))
     = Num 32155
   \<and> calls (next_startup env_ok (snd (submit env_ok (data\<lparr>address := [], port := Num 8080\<rparr>)))) = []
   \<and> port (next_startup env_ok (snd (submit env_ok (data\<lparr>address := ''host'', port := Num 8080\<rparr>))))
     = Str ''8080''"
  by (simp add: next_startup_def created_def submit_def connect_def updatePanels_def setItem_def
        log_def env_ok_def data_def int_text_8080 Let_def)

subsection \<open>Button changes\<close>

text \<open>
  Claim C9. A button change of type view is never sent: on release it calls
  \<open>panel.setView\<close>, on press it does nothing. A macro or command change is dropped while
  the button is pressed, and sent with \<open>sendInput\<close> (one \<open>relay.sendInput\<close> call) on
  release. A change of any other type is sent.
\<close>

theorem button_routing:
  "(input_type a = View \<longrightarrow>
      onButtonChange e a s = (if isPressed a then s else log [SetView (view a)] s)
      \<and> calls (onButtonChange e a s) = calls s @ (if isPressed a then [] else [SetView (view a)]))
   \<and> ((input_type a = Macro \<or> input_type a = Command) \<and> isPressed a \<longrightarrow>
      onButtonChange e a s = s)
   \<and> (((input_type a = Macro \<or> input_type a = Command) \<and> \<not> isPressed a)
        \<or> input_type a = OtherInput \<longrightarrow>
      onButtonChange e a s = snd (sendInput e a s)
      \<and> calls (onButtonChange e a s) = calls s @ [SendInput a])"
  by (cases "input_type a") (auto simp: onButtonChange_def sendInput_calls log_def)

theorem button_routing_witness:
  "input_type (release View) = View
   \<and> calls (onButtonChange env_ok (release View) data) = [SetView ''main'']
   \<and> input_type (press View) = View
   \<and> calls (onButtonChange env_ok (press View) data) = []
   \<and> (input_type (press Command) = Macro \<or> input_type (press Command) = Command)
   \<and> isPressed (press Command)
   \<and> onButtonChange env_ok (press Command) data = data
   \<and> (input_type (release Macro) = Macro \<or> input_type (release Macro) = Command)
   \<and> \<not> isPressed (release Macro)
   \<and> calls (onButtonChange env_ok (release Macro) data) = [SendInput (release Macro)]"
proof -
  have c0: "calls data = []" by (simp add: data_def)
  have v1: "input_type (release View) = View" and r1: "\<not> isPressed (release View)"
    and w1: "view (release View) = ''main''"
    by (simp_all add: release_def)
  have v2: "input_type (press View) = View" and p2: "isPressed (press View)"
    by (simp_all add: press_def)
  have t3: "input_type (press Command) = Macro \<or> input_type (press Command) = Command"
    and p3: "isPressed (press Command)"
    by (simp_all add: press_def)
  have t4: "input_type (release Macro) = Macro \<or> input_type (release Macro) = Command"
    and r4: "\<not> isPressed (release Macro)"
    by (simp_all add: release_def)
  have "calls (onButtonChange env_ok (release View) data)
          = calls data @ (if isPressed (release View) then [] else [SetView (view (release View))])"
    using button_routing [of "release View" env_ok data] v1 by blast
  then have c1: "calls (onButtonChange env_ok (release View) data) = [SetView ''main'']"
    by (simp add: c0 r1 w1)
  have "calls (onButtonChange env_ok (press View) data)
          = calls data @ (if isPressed (press View) then [] else [SetView (view (press View))])"
    using button_routing [of "press View" env_ok data] v2 by blast
  then have c2: "calls (onButtonChange env_ok (press View) data) = []"
    by (simp add: c0 p2)
  have c3: "onButtonChange env_ok (press Command) data = data"
    using button_routing [of "press Command" env_ok data] t3 p3 by blast
  have "calls (onButtonChange env_ok (release Macro) data) = calls data @ [SendInput (release Macro)]"
    using button_routing [of "release Macro" env_ok data] t4 r4 by blast
  then have c4: "calls (onButtonChange env_ok (release Macro) data) = [SendInput (release Macro)]"
    by (simp add: c0)
  show ?thesis
    using v1 c1 v2 c2 t3 p3 c3 t4 r4 c4 by blast
qed

text \<open>
  A pressed macro button and a pressed command button reach no collaborator; the
  released macro button is sent.
\<close>

theorem pressed_button_not_sent:
  "onButtonChange env_ok (press Macro) data = data
   \<and> calls (onButtonChange env_ok (press Macro) data) = []
   \<and> calls (onButtonChange env_ok (press Command) data) = []
   \<and> calls (onButtonChange env_ok (release Macro) data) = [SendInput (release Macro)]"
  by (simp add: onButtonChange_def sendInput_def log_def env_ok_def press_def release_def data_def)

end
